theory Spec2Isabelle
  imports Complex_Main "HOL-Library.Word"
begin

section \<open>Python values and errors\<close>

text \<open>
  The pipeline of \<^verbatim>\<open>client/stable_diffusion.py\<close> is a sequential script over external
  components: tokenizer, model hub, inference runtime, scheduler, random generator, HTTP
  client and image writer. The script is embedded as it is written; the external
  components are fields of an environment record, so every statement below holds for
  whatever those components compute.

  Every exception the script or one of the components can raise is a value of
  \<open>error\<close>; the script catches none, so an error ends the run.
  Python floats are modelled by \<open>real\<close>: comparisons and arithmetic are exact; IEEE
  rounding, infinities and NaN are left out. Console output and the wall-clock
  readings that only feed it (\<^verbatim>\<open>perf_counter\<close>, \<^verbatim>\<open>print\<close>) are left out as well.
\<close>

datatype error =
    ZeroDivisionError
  | IndexError
  | KeyError
  | ValueError
  | StopIteration
  | External string

datatype pyval = PyInt int | PyFloat real | PyStr string

type_synonym kwargs = "(string \<times> pyval) list"

text \<open>\<^verbatim>\<open>d[key]\<close> on a dictionary.\<close>

definition dict_get :: "(string \<times> 'v) list \<Rightarrow> string \<Rightarrow> error + 'v" where
  "dict_get d key = (case map_of d key of None \<Rightarrow> Inl KeyError | Some v \<Rightarrow> Inr v)"

text \<open>\<^verbatim>\<open>xs[i]\<close> on a sequence, for an index that is not negative.\<close>

definition list_get :: "'a list \<Rightarrow> nat \<Rightarrow> error + 'a" where
  "list_get xs i = (if i < length xs then Inr (xs ! i) else Inl IndexError)"

text \<open>\<^verbatim>\<open>enumerate(xs)\<close>.\<close>

definition enumerate_py :: "'a list \<Rightarrow> (nat \<times> 'a) list" where
  "enumerate_py xs = zip [0..<length xs] xs"

text \<open>The text an f-string puts in place of \<^verbatim>\<open>{v}\<close>, for integers and strings.\<close>

fun str_of_nat :: "nat \<Rightarrow> string" where
  "str_of_nat n =
     (if n < 10 then [char_of (48 + n)]
      else str_of_nat (n div 10) @ [char_of (48 + n mod 10)])"

definition str_of_int :: "int \<Rightarrow> string" where
  "str_of_int k = (if k < 0 then CHR ''-'' # str_of_nat (nat (- k)) else str_of_nat (nat k))"

text \<open>
  \<open>format_py\<close> of a float is not needed by any caller in the script (the prompt id is an
  integer or a string); it is rendered through its integer part only to keep the
  function total.
\<close>

fun format_py :: "pyval \<Rightarrow> string" where
  "format_py (PyInt k) = str_of_int k"
| "format_py (PyStr s) = s"
| "format_py (PyFloat x) = str_of_int \<lfloor>x\<rfloor> @ ''.''"

text \<open>Python's \<^verbatim>\<open>round(x)\<close> on a float: to the nearest integer, ties to the even one.\<close>

definition py_round :: "real \<Rightarrow> int" where
  "py_round x =
     (let f = \<lfloor>x\<rfloor>; d = x - of_int f
      in if d < 1 / 2 then f
         else if 1 / 2 < d then f + 1
         else if even f then f else f + 1)"

text \<open>
  \<^verbatim>\<open>percent = (i / num_inference_steps) * 100\<close> (line 133) followed by
  \<^verbatim>\<open>round(percent)\<close>, the value sent as \<^verbatim>\<open>generated_percent\<close> (line 139). Python's true
  division raises on a zero divisor.
\<close>

definition percent :: "nat \<Rightarrow> int \<Rightarrow> error + real" where
  "percent i num_inference_steps =
     (if num_inference_steps = 0 then Inl ZeroDivisionError
      else Inr ((of_nat i / of_int num_inference_steps) * 100))"

definition generated_percent :: "nat \<Rightarrow> int \<Rightarrow> error + int" where
  "generated_percent i num_inference_steps =
     (case percent i num_inference_steps of
        Inl e \<Rightarrow> Inl e
      | Inr p \<Rightarrow> Inr (py_round p))"

section \<open>Arrays\<close>

text \<open>
  A numpy array is its shape and its elements in row-major order. Only the operations
  the script applies are defined, each with the exceptions numpy raises.
\<close>

datatype 'a ndarray = NdArray (shape: "nat list") (data: "'a list")

definition well_shaped :: "'a ndarray \<Rightarrow> bool" where
  "well_shaped a \<longleftrightarrow> length (data a) = prod_list (shape a)"

text \<open>\<^verbatim>\<open>np.array([tokens])\<close>: one row holding the token ids.\<close>

definition np_array_row :: "'a list \<Rightarrow> 'a ndarray" where
  "np_array_row xs = NdArray [1, length xs] xs"

text \<open>\<^verbatim>\<open>np.concatenate((a, b), axis=0)\<close>.\<close>

definition np_concatenate :: "'a ndarray \<Rightarrow> 'a ndarray \<Rightarrow> error + 'a ndarray" where
  "np_concatenate a b =
     (case (shape a, shape b) of
        (m # s, n # s') \<Rightarrow>
          if s = s' then Inr (NdArray ((m + n) # s) (data a @ data b)) else Inl ValueError
      | _ \<Rightarrow> Inl ValueError)"

text \<open>\<^verbatim>\<open>np.stack(arrays, 0)\<close>.\<close>

definition np_stack :: "'a ndarray list \<Rightarrow> error + 'a ndarray" where
  "np_stack arrays =
     (case arrays of
        [] \<Rightarrow> Inl ValueError
      | a # rest \<Rightarrow>
          if \<forall>b \<in> set rest. shape b = shape a
          then Inr (NdArray (length arrays # shape a) (concat (map data arrays)))
          else Inl ValueError)"

text \<open>\<^verbatim>\<open>np.expand_dims(a, 0)\<close>.\<close>

definition np_expand_dims :: "'a ndarray \<Rightarrow> 'a ndarray" where
  "np_expand_dims a = NdArray (1 # shape a) (data a)"

text \<open>\<^verbatim>\<open>a[i]\<close> for an index that is not negative.\<close>

definition nd_index :: "'a ndarray \<Rightarrow> nat \<Rightarrow> error + 'a ndarray" where
  "nd_index a i =
     (case shape a of
        [] \<Rightarrow> Inl IndexError
      | n # s \<Rightarrow>
          if i < n
          then Inr (NdArray s (take (prod_list s) (drop (i * prod_list s) (data a))))
          else Inl IndexError)"

text \<open>An array and a scalar (\<^verbatim>\<open>a * s\<close>, \<^verbatim>\<open>a / s\<close>, \<^verbatim>\<open>a + s\<close>, \<^verbatim>\<open>a.clip(lo, hi)\<close>, \<^verbatim>\<open>astype\<close>).\<close>

definition nd_map :: "('a \<Rightarrow> 'b) \<Rightarrow> 'a ndarray \<Rightarrow> 'b ndarray" where
  "nd_map f a = NdArray (shape a) (map f (data a))"

text \<open>
  Two arrays, element by element. The script combines only rows of one array (line
  143), which share their shape, so numpy's broadcasting never comes into play.
\<close>

definition nd_map2 :: "('a \<Rightarrow> 'b \<Rightarrow> 'c) \<Rightarrow> 'a ndarray \<Rightarrow> 'b ndarray \<Rightarrow> 'c ndarray" where
  "nd_map2 f a b = NdArray (shape a) (map2 f (data a) (data b))"

text \<open>
  \<^verbatim>\<open>a.transpose(1, 2, 0)\<close>: the array must have three axes; element \<open>(y, x, c)\<close> of the
  result is element \<open>(c, y, x)\<close> of \<open>a\<close>.
\<close>

definition nd_transpose_120 :: "'a ndarray \<Rightarrow> error + 'a ndarray" where
  "nd_transpose_120 a =
     (case shape a of
        [c, h, w] \<Rightarrow>
          Inr (NdArray [h, w, c]
                 (map (\<lambda>k. data a ! (((k mod c) * h + k div (w * c)) * w + (k div c) mod w))
                    [0..<h * w * c]))
      | _ \<Rightarrow> Inl ValueError)"

text \<open>
  \<^verbatim>\<open>a[:, :, ::-1]\<close>: the third axis reversed; fewer than three axes is an IndexError.
\<close>

definition nd_reverse_axis2 :: "'a ndarray \<Rightarrow> error + 'a ndarray" where
  "nd_reverse_axis2 a =
     (case shape a of
        h # w # c # rest \<Rightarrow>
          (let r = prod_list rest
           in Inr (NdArray (shape a)
                     (map (\<lambda>k. data a ! (k - ((k div r) mod c) * r + (c - 1 - (k div r) mod c) * r))
                        [0..<h * w * c * r])))
      | _ \<Rightarrow> Inl IndexError)"

text \<open>
  \<^verbatim>\<open>astype(np.uint8)\<close> on a float: the fraction is dropped, the integer is kept modulo 256.
\<close>

definition to_uint8 :: "real \<Rightarrow> 8 word" where
  "to_uint8 x = word_of_int (if 0 \<le> x then \<lfloor>x\<rfloor> else \<lceil>x\<rceil>)"

section \<open>External components and their calls\<close>

text \<open>
  \<^verbatim>\<open>tokenizer(text, padding=..., max_length=..., truncation=...).input_ids\<close> of the
  transformers library, and the tokenizer's \<^verbatim>\<open>model_max_length\<close> attribute.
\<close>

record tokenizer =
  model_max_length :: nat
  input_ids :: "string \<Rightarrow> string \<Rightarrow> nat \<Rightarrow> bool \<Rightarrow> error + int list"

datatype tensor =
    IntTensor "int ndarray"
  | FloatTensor "real ndarray"
  | FloatScalar real

type_synonym feed = "(string \<times> tensor) list"

text \<open>
  A compiled OpenVINO model: \<^verbatim>\<open>infer_new_request(feed)\<close> returns a dictionary of outputs,
  kept here as the list of its values in order.
\<close>

type_synonym compiled_model = "feed \<Rightarrow> error + real ndarray list"

text \<open>A model as read from its files: the shapes of its declared inputs.\<close>

record ov_model =
  model_xml :: string
  model_bin :: string
  inputs :: "nat list list"

datatype component = TextEncoder | UNet | VAEDecoder

text \<open>
  The second argument of \<^verbatim>\<open>scheduler.step\<close> is the loop index \<^verbatim>\<open>i\<close> or the element
  \<^verbatim>\<open>t\<close> of \<^verbatim>\<open>scheduler.timesteps\<close>.
\<close>

datatype step_arg = StepIndex nat | Timestep real

text \<open>
  A scheduler object: whether it is an instance of \<^verbatim>\<open>LMSDiscreteScheduler\<close>, the
  parameter names \<^verbatim>\<open>inspect.signature\<close> reports for its two methods, the methods
  themselves as functions on the scheduler's own state, and its two attributes.
\<close>

record 's scheduler =
  isinstance_LMSDiscreteScheduler :: bool
  set_timesteps_parameters :: "string list"
  step_parameters :: "string list"
  set_timesteps :: "int \<Rightarrow> kwargs \<Rightarrow> 's \<Rightarrow> error + 's"
  step :: "real ndarray \<Rightarrow> step_arg \<Rightarrow> real ndarray \<Rightarrow> kwargs \<Rightarrow> 's
             \<Rightarrow> error + ((string \<times> real ndarray) list \<times> 's)"
  timesteps :: "'s \<Rightarrow> real list"
  sigmas :: "'s \<Rightarrow> real list"

text \<open>
  The state of numpy's process-wide generator, as the history that determines it: not
  seeded by the script, seeded, or advanced by drawing an array of a given shape.
\<close>

datatype rng = Unseeded | Seeded int | Advanced rng "nat list"

text \<open>Every call that leaves the script, with its arguments, and how it ended.\<close>

datatype call =
    FromPretrained string
  | NewCore
  | HfHubDownload string string
  | ReadModel string string
  | CompileModel ov_model string
  | Tokenize string string nat bool
  | InferNewRequest component feed
  | RandomSeed int
  | Randn "nat list"
  | NewLMSDiscreteScheduler real real string string
  | SetTimesteps int kwargs
  | Step "real ndarray" step_arg "real ndarray" kwargs
  | RequestsPut string bool int
  | ImWrite string "8 word ndarray"

datatype outcome = Returned | Raised error

type_synonym event = "call \<times> outcome"

text \<open>
  What the script runs in: the trace of calls so far, the process-wide random generator
  and the state of the scheduler object.
\<close>

record 's world =
  trace :: "event list"
  np_random :: rng
  scheduler_state :: 's

text \<open>
  The environment: what each external call computes. The two network calls may depend
  on everything that happened before them.
\<close>

record 's env =
  CLIPTokenizer_from_pretrained :: "string \<Rightarrow> error + tokenizer"
  Core :: "error + unit"
  hf_hub_download :: "event list \<Rightarrow> string \<Rightarrow> string \<Rightarrow> error + string"
  read_model :: "string \<Rightarrow> string \<Rightarrow> error + ov_model"
  compile_model :: "ov_model \<Rightarrow> string \<Rightarrow> error + compiled_model"
  np_random_seed :: "int \<Rightarrow> error + unit"
  np_random_randn :: "rng \<Rightarrow> nat \<Rightarrow> real"
  LMSDiscreteScheduler :: "'s scheduler"
  LMSDiscreteScheduler_init :: "real \<Rightarrow> real \<Rightarrow> string \<Rightarrow> string \<Rightarrow> error + 's"
  requests_put :: "event list \<Rightarrow> string \<Rightarrow> bool \<Rightarrow> int \<Rightarrow> error + unit"
  cv2_imwrite :: "string \<Rightarrow> 8 word ndarray \<Rightarrow> error + bool"

section \<open>Sequencing\<close>

text \<open>
  A statement of the script maps the world to a result and a new world. An exception
  skips everything after it.
\<close>

type_synonym ('s, 'a) io = "'s world \<Rightarrow> (error + 'a) \<times> 's world"

definition io_return :: "'a \<Rightarrow> ('s, 'a) io" where
  "io_return x w = (Inr x, w)"

definition io_lift :: "error + 'a \<Rightarrow> ('s, 'a) io" where
  "io_lift r w = (r, w)"

definition io_bind :: "('s, 'a) io \<Rightarrow> ('a \<Rightarrow> ('s, 'b) io) \<Rightarrow> ('s, 'b) io" where
  "io_bind m f w = (case m w of (Inl e, w') \<Rightarrow> (Inl e, w') | (Inr x, w') \<Rightarrow> f x w')"

definition outcome_of :: "error + 'a \<Rightarrow> outcome" where
  "outcome_of r = (case r of Inl e \<Rightarrow> Raised e | Inr _ \<Rightarrow> Returned)"

definition external :: "call \<Rightarrow> error + 'a \<Rightarrow> ('s, 'a) io" where
  "external c r w = (r, w\<lparr>trace := trace w @ [(c, outcome_of r)]\<rparr>)"

text \<open>\<^verbatim>\<open>result(var)\<close> (line 54): \<^verbatim>\<open>next(iter(var.values()))\<close>.\<close>

definition result :: "'a list \<Rightarrow> error + 'a" where
  "result var = (case var of [] \<Rightarrow> Inl StopIteration | v # _ \<Rightarrow> Inr v)"

definition infer_new_request :: "component \<Rightarrow> compiled_model \<Rightarrow> feed \<Rightarrow> ('s, real ndarray list) io" where
  "infer_new_request c m feed_dict = external (InferNewRequest c feed_dict) (m feed_dict)"

definition call_tokenizer :: "tokenizer \<Rightarrow> string \<Rightarrow> string \<Rightarrow> nat \<Rightarrow> bool \<Rightarrow> ('s, int list) io" where
  "call_tokenizer tk text padding max_length truncation =
     external (Tokenize text padding max_length truncation)
       (input_ids tk text padding max_length truncation)"

definition random_seed :: "'s env \<Rightarrow> int \<Rightarrow> ('s, unit) io" where
  "random_seed env seed =
     io_bind (external (RandomSeed seed) (np_random_seed env seed))
       (\<lambda>_ w. (Inr (), w\<lparr>np_random := Seeded seed\<rparr>))"

definition random_randn :: "'s env \<Rightarrow> nat list \<Rightarrow> ('s, real ndarray) io" where
  "random_randn env shp w =
     external (Randn shp)
       (Inr (NdArray shp (map (np_random_randn env (np_random w)) [0..<prod_list shp])))
       (w\<lparr>np_random := Advanced (np_random w) shp\<rparr>)"

definition scheduler_set_timesteps :: "'s scheduler \<Rightarrow> int \<Rightarrow> kwargs \<Rightarrow> ('s, unit) io" where
  "scheduler_set_timesteps sch n kw w =
     (case set_timesteps sch n kw (scheduler_state w) of
        Inl e \<Rightarrow> external (SetTimesteps n kw) (Inl e) w
      | Inr s' \<Rightarrow> external (SetTimesteps n kw) (Inr ()) (w\<lparr>scheduler_state := s'\<rparr>))"

definition scheduler_step ::
  "'s scheduler \<Rightarrow> real ndarray \<Rightarrow> step_arg \<Rightarrow> real ndarray \<Rightarrow> kwargs
     \<Rightarrow> ('s, (string \<times> real ndarray) list) io" where
  "scheduler_step sch model_output a sample kw w =
     (case step sch model_output a sample kw (scheduler_state w) of
        Inl e \<Rightarrow> external (Step model_output a sample kw) (Inl e) w
      | Inr (out, s') \<Rightarrow>
          external (Step model_output a sample kw) (Inr out) (w\<lparr>scheduler_state := s'\<rparr>))"

definition scheduler_timesteps :: "'s scheduler \<Rightarrow> ('s, real list) io" where
  "scheduler_timesteps sch w = (Inr (timesteps sch (scheduler_state w)), w)"

definition scheduler_sigmas :: "'s scheduler \<Rightarrow> ('s, real list) io" where
  "scheduler_sigmas sch w = (Inr (sigmas sch (scheduler_state w)), w)"

definition put :: "'s env \<Rightarrow> string \<Rightarrow> bool \<Rightarrow> int \<Rightarrow> ('s, unit) io" where
  "put env url being_generated pct w =
     external (RequestsPut url being_generated pct)
       (requests_put env (trace w) url being_generated pct) w"

definition download :: "'s env \<Rightarrow> string \<Rightarrow> string \<Rightarrow> ('s, string) io" where
  "download env repo_id filename w =
     external (HfHubDownload repo_id filename) (hf_hub_download env (trace w) repo_id filename) w"

definition err_bind :: "error + 'a \<Rightarrow> ('a \<Rightarrow> error + 'b) \<Rightarrow> error + 'b" where
  "err_bind r f = (case r of Inl e \<Rightarrow> Inl e | Inr x \<Rightarrow> f x)"

section \<open>The class \<^verbatim>\<open>StableDiffusion\<close>\<close>

record 's StableDiffusion =
  tokenizer :: tokenizer
  scheduler :: "'s scheduler"
  text_encoder :: compiled_model
  unet :: compiled_model
  latent_shape :: "nat list"
  vae :: compiled_model

text \<open>
  Lines 32-36, 38-42 and 45-49 are the same four calls on three file names: download
  the graph, download the weights, read the model, compile it.
\<close>

definition load_model :: "'s env \<Rightarrow> string \<Rightarrow> string \<Rightarrow> string \<Rightarrow> ('s, ov_model \<times> compiled_model) io" where
  "load_model env model name device =
     io_bind (download env model (name @ ''.xml'')) (\<lambda>xml.
     io_bind (download env model (name @ ''.bin'')) (\<lambda>bin.
     io_bind (external (ReadModel xml bin) (read_model env xml bin)) (\<lambda>m.
     io_bind (external (CompileModel m device) (compile_model env m device)) (\<lambda>compiled.
     io_return (m, compiled)))))"

text \<open>\<^verbatim>\<open>StableDiffusion.__init__\<close> (lines 20-49).\<close>

definition StableDiffusion_init ::
  "'s env \<Rightarrow> 's scheduler \<Rightarrow> string \<Rightarrow> string \<Rightarrow> string \<Rightarrow> ('s, 's StableDiffusion) io" where
  "StableDiffusion_init env sch model tokenizer_name device =
     io_bind (external (FromPretrained tokenizer_name)
                (CLIPTokenizer_from_pretrained env tokenizer_name)) (\<lambda>tk.
     io_bind (external NewCore (Core env)) (\<lambda>_.
     io_bind (load_model env model ''text_encoder'' device) (\<lambda>(_, te).
     io_bind (load_model env model ''unet'' device) (\<lambda>(unet_model, un).
     io_bind (io_lift (list_get (inputs unet_model) 0)) (\<lambda>input0.
     io_bind (load_model env model ''vae_decoder'' device) (\<lambda>(_, va).
     io_return \<lparr>tokenizer = tk, scheduler = sch, text_encoder = te, unet = un,
                 latent_shape = tl input0, vae = va\<rparr>))))))"

text \<open>
  Lines 57-65 and 69-78: tokenize with padding to \<^verbatim>\<open>model_max_length\<close> and truncation,
  run the text encoder on the one-row batch, take its first output.
\<close>

definition embed :: "'s StableDiffusion \<Rightarrow> string \<Rightarrow> ('s, real ndarray) io" where
  "embed sd text =
     io_bind (call_tokenizer (tokenizer sd) text ''max_length''
                (model_max_length (tokenizer sd)) True) (\<lambda>tokens.
     io_bind (infer_new_request TextEncoder (text_encoder sd)
                [(''tokens'', IntTensor (np_array_row tokens))]) (\<lambda>outputs.
     io_lift (result outputs)))"

text \<open>Lines 57-80: the prompt's embedding, and classifier-free guidance.\<close>

definition text_conditioning :: "'s StableDiffusion \<Rightarrow> string \<Rightarrow> real \<Rightarrow> ('s, real ndarray) io" where
  "text_conditioning sd prompt guidance_scale =
     io_bind (embed sd prompt) (\<lambda>text_embeddings.
     if 1 < guidance_scale
     then io_bind (embed sd []) (\<lambda>uncond_embeddings.
          io_lift (np_concatenate uncond_embeddings text_embeddings))
     else io_return text_embeddings)"

text \<open>Lines 86-90 and 102-106: the optional arguments the scheduler's methods declare.\<close>

definition extra_set_kwargs :: "'s scheduler \<Rightarrow> kwargs" where
  "extra_set_kwargs sch =
     (let accepts_offset = ''offset'' \<in> set (set_timesteps_parameters sch)
      in if accepts_offset then [(''offset'', PyInt 1)] else [])"

definition extra_step_kwargs :: "'s scheduler \<Rightarrow> real \<Rightarrow> kwargs" where
  "extra_step_kwargs sch eta =
     (let accepts_eta = ''eta'' \<in> set (step_parameters sch)
      in if accepts_eta then [(''eta'', PyFloat eta)] else [])"

text \<open>Lines 111-117: the input of the denoiser.\<close>

definition latent_model_input :: "'s scheduler \<Rightarrow> real \<Rightarrow> nat \<Rightarrow> real ndarray \<Rightarrow> ('s, real ndarray) io" where
  "latent_model_input sch guidance_scale i latents =
     io_bind (io_lift (if 1 < guidance_scale then np_stack [latents, latents] else Inr latents))
       (\<lambda>stacked.
     if isinstance_LMSDiscreteScheduler sch
     then io_bind (scheduler_sigmas sch) (\<lambda>sgs.
          io_bind (io_lift (list_get sgs i)) (\<lambda>sigma.
          io_return (nd_map (\<lambda>x. x / sqrt (sigma\<^sup>2 + 1)) stacked)))
     else io_return stacked)"

text \<open>Lines 142-144: \<^verbatim>\<open>noise_pred[0] + guidance_scale * (noise_pred[1] - noise_pred[0])\<close>.\<close>

definition perform_guidance :: "real \<Rightarrow> real ndarray \<Rightarrow> error + real ndarray" where
  "perform_guidance guidance_scale noise_pred =
     (if 1 < guidance_scale
      then err_bind (nd_index noise_pred 0) (\<lambda>uncond.
           err_bind (nd_index noise_pred 1) (\<lambda>cond.
           Inr (nd_map2 (+) uncond (nd_map (\<lambda>x. guidance_scale * x) (nd_map2 (-) cond uncond)))))
      else Inr noise_pred)"

text \<open>Lines 147-152: the scheduler's update, by loop index for an LMS scheduler.\<close>

definition advance ::
  "'s scheduler \<Rightarrow> kwargs \<Rightarrow> real ndarray \<Rightarrow> nat \<Rightarrow> real \<Rightarrow> real ndarray \<Rightarrow> ('s, real ndarray) io" where
  "advance sch step_kwargs noise_pred i t latents =
     io_bind (scheduler_step sch noise_pred
                (if isinstance_LMSDiscreteScheduler sch then StepIndex i else Timestep t)
                latents step_kwargs) (\<lambda>out.
     io_lift (dict_get out ''prev_sample''))"

text \<open>Lines 111-152: the body of the loop.\<close>

definition iteration ::
  "'s env \<Rightarrow> 's StableDiffusion \<Rightarrow> int \<Rightarrow> real \<Rightarrow> string \<Rightarrow> string \<Rightarrow> (string \<times> pyval) list
     \<Rightarrow> real ndarray \<Rightarrow> kwargs \<Rightarrow> nat \<Rightarrow> real \<Rightarrow> real ndarray \<Rightarrow> ('s, real ndarray) io" where
  "iteration env sd num_inference_steps guidance_scale server token next_prompt
       text_embeddings step_kwargs i t latents =
     io_bind (latent_model_input (scheduler sd) guidance_scale i latents) (\<lambda>model_input.
     io_bind (infer_new_request UNet (unet sd)
                [(''latent_model_input'', FloatTensor model_input),
                 (''t'', FloatScalar t),
                 (''encoder_hidden_states'', FloatTensor text_embeddings)]) (\<lambda>outputs.
     io_bind (io_lift (result outputs)) (\<lambda>noise_pred.
     io_bind (io_lift (generated_percent i num_inference_steps)) (\<lambda>pct.
     io_bind (io_lift (dict_get next_prompt ''id'')) (\<lambda>prompt_id.
     io_bind (put env (server @ ''/prompt/'' @ format_py prompt_id @ ''?token='' @ token)
                True pct) (\<lambda>_.
     io_bind (io_lift (perform_guidance guidance_scale noise_pred)) (\<lambda>guided.
     advance (scheduler sd) step_kwargs guided i t latents)))))))"

text \<open>\<^verbatim>\<open>for i, t in enumerate(...)\<close> over a body that updates \<^verbatim>\<open>latents\<close>.\<close>

fun sampling_loop ::
  "(nat \<Rightarrow> real \<Rightarrow> real ndarray \<Rightarrow> ('s, real ndarray) io) \<Rightarrow> (nat \<times> real) list \<Rightarrow> real ndarray
     \<Rightarrow> ('s, real ndarray) io" where
  "sampling_loop body [] latents = io_return latents"
| "sampling_loop body ((i, t) # rest) latents =
     io_bind (body i t latents) (sampling_loop body rest)"

text \<open>Lines 159-161: from the decoder's output to an image for OpenCV.\<close>

definition postprocess :: "real ndarray \<Rightarrow> error + 8 word ndarray" where
  "postprocess img =
     err_bind (nd_index (nd_map (\<lambda>x. min (max x 0) 1) (nd_map (\<lambda>x. x / 2 + 0.5) img)) 0)
       (\<lambda>first.
     err_bind (nd_transpose_120 first) (\<lambda>hwc.
     err_bind (nd_reverse_axis2 hwc) (\<lambda>bgr.
     Inr (nd_map to_uint8 (nd_map (\<lambda>x. x * 255) bgr)))))"

text \<open>Lines 154-162: decode the final latent.\<close>

definition decode :: "'s StableDiffusion \<Rightarrow> real ndarray \<Rightarrow> ('s, 8 word ndarray) io" where
  "decode sd latents =
     io_bind (infer_new_request VAEDecoder (vae sd)
                [(''latents'', FloatTensor (np_expand_dims latents))]) (\<lambda>outputs.
     io_bind (io_lift (result outputs)) (\<lambda>img.
     io_lift (postprocess img)))"

text \<open>Lines 83-96: the initial noise, the scheduler's time steps, the LMS scaling.\<close>

definition initial_latents :: "'s env \<Rightarrow> 's StableDiffusion \<Rightarrow> int \<Rightarrow> ('s, real ndarray) io" where
  "initial_latents env sd num_inference_steps =
     io_bind (random_randn env (latent_shape sd)) (\<lambda>latents.
     io_bind (scheduler_set_timesteps (scheduler sd) num_inference_steps
                (extra_set_kwargs (scheduler sd))) (\<lambda>_.
     if isinstance_LMSDiscreteScheduler (scheduler sd)
     then io_bind (scheduler_sigmas (scheduler sd)) (\<lambda>sgs.
          io_bind (io_lift (list_get sgs 0)) (\<lambda>sigma0.
          io_return (nd_map (\<lambda>x. x * sigma0) latents)))
     else io_return latents))"

text \<open>\<^verbatim>\<open>StableDiffusion.__call__\<close> (lines 51-162).\<close>

definition StableDiffusion_call ::
  "'s env \<Rightarrow> 's StableDiffusion \<Rightarrow> string \<Rightarrow> int \<Rightarrow> real \<Rightarrow> real \<Rightarrow> string \<Rightarrow> string
     \<Rightarrow> (string \<times> pyval) list \<Rightarrow> ('s, 8 word ndarray) io" where
  "StableDiffusion_call env sd prompt num_inference_steps guidance_scale eta server token
       next_prompt =
     io_bind (text_conditioning sd prompt guidance_scale) (\<lambda>text_embeddings.
     io_bind (initial_latents env sd num_inference_steps) (\<lambda>latents.
     io_bind (scheduler_timesteps (scheduler sd)) (\<lambda>ts.
     io_bind (sampling_loop
                (iteration env sd num_inference_steps guidance_scale server token next_prompt
                   text_embeddings (extra_step_kwargs (scheduler sd) eta))
                (enumerate_py ts) latents) (\<lambda>final.
     decode sd final))))"

section \<open>Entry points\<close>

text \<open>
  The parsed command line (lines 214-243); \<open>args_tokenizer\<close> is \<^verbatim>\<open>args.tokenizer\<close>, and so
  on. \<open>default_args\<close> holds the defaults the parser declares.
\<close>

record args =
  args_model :: string
  args_beta_start :: real
  args_beta_end :: real
  args_beta_schedule :: string
  args_num_inference_steps :: int
  args_guidance_scale :: real
  args_eta :: real
  args_tokenizer :: string
  args_prompt :: string
  args_seed :: "int option"
  args_output :: string

definition default_args :: args where
  "default_args =
     \<lparr>args_model = ''bes-dev/stable-diffusion-v1-4-openvino'',
      args_beta_start = 0.00085,
      args_beta_end = 0.012,
      args_beta_schedule = ''scaled_linear'',
      args_num_inference_steps = 32,
      args_guidance_scale = 7.5,
      args_eta = 0.0,
      args_tokenizer = ''openai/clip-vit-large-patch14'',
      args_prompt = ''Street-art painting of Emilia Clarke in style of Banksy, photorealism'',
      args_seed = None,
      args_output = ''output.png''\<rparr>"

text \<open>
  \<^verbatim>\<open>LMSDiscreteScheduler(beta_start=..., beta_end=..., beta_schedule=...,
  tensor_format="np")\<close>: the object is an instance of its class.
\<close>

definition new_LMSDiscreteScheduler ::
  "'s env \<Rightarrow> real \<Rightarrow> real \<Rightarrow> string \<Rightarrow> string \<Rightarrow> ('s, 's scheduler) io" where
  "new_LMSDiscreteScheduler env beta_start beta_end beta_schedule tensor_format w =
     (case LMSDiscreteScheduler_init env beta_start beta_end beta_schedule tensor_format of
        Inl e \<Rightarrow>
          external (NewLMSDiscreteScheduler beta_start beta_end beta_schedule tensor_format)
            (Inl e) w
      | Inr s \<Rightarrow>
          external (NewLMSDiscreteScheduler beta_start beta_end beta_schedule tensor_format)
            (Inr ((LMSDiscreteScheduler env)\<lparr>isinstance_LMSDiscreteScheduler := True\<rparr>))
            (w\<lparr>scheduler_state := s\<rparr>))"

definition imwrite :: "'s env \<Rightarrow> string \<Rightarrow> 8 word ndarray \<Rightarrow> ('s, bool) io" where
  "imwrite env filename img = external (ImWrite filename img) (cv2_imwrite env filename img)"

text \<open>
  \<^verbatim>\<open>main(args)\<close> (lines 165-185). The call of the pipeline leaves \<^verbatim>\<open>server\<close>, \<^verbatim>\<open>token\<close>
  and \<^verbatim>\<open>next_prompt\<close> at the defaults of lines 51-53, and \<^verbatim>\<open>device\<close> at the default of
  line 25.
\<close>

definition main :: "'s env \<Rightarrow> args \<Rightarrow> ('s, unit) io" where
  "main env a =
     io_bind (case args_seed a of None \<Rightarrow> io_return () | Some seed \<Rightarrow> random_seed env seed) (\<lambda>_.
     io_bind (new_LMSDiscreteScheduler env (args_beta_start a) (args_beta_end a)
                (args_beta_schedule a) ''np'') (\<lambda>sch.
     io_bind (StableDiffusion_init env sch (args_model a) (args_tokenizer a) ''CPU'') (\<lambda>sd.
     io_bind (StableDiffusion_call env sd (args_prompt a) (args_num_inference_steps a)
                (args_guidance_scale a) (args_eta a) [] [] [(''id'', PyInt 0)]) (\<lambda>img.
     io_bind (imwrite env (args_output a) img) (\<lambda>_.
     io_return ())))))"

text \<open>\<^verbatim>\<open>run_stable_diffusion\<close> (lines 188-210).\<close>

definition run_stable_diffusion ::
  "'s env \<Rightarrow> string \<Rightarrow> int \<Rightarrow> int \<Rightarrow> string \<Rightarrow> string \<Rightarrow> string \<Rightarrow> (string \<times> pyval) list
     \<Rightarrow> ('s, unit) io" where
  "run_stable_diffusion env prompt iterations seed output server token next_prompt =
     io_bind (random_seed env seed) (\<lambda>_.
     io_bind (new_LMSDiscreteScheduler env 0.00085 0.012 ''scaled_linear'' ''np'') (\<lambda>sch.
     io_bind (StableDiffusion_init env sch ''bes-dev/stable-diffusion-v1-4-openvino''
                ''openai/clip-vit-large-patch14'' ''CPU'') (\<lambda>sd.
     io_bind (StableDiffusion_call env sd prompt iterations 7.5 0.0 server token next_prompt)
       (\<lambda>img.
     io_bind (imwrite env output img) (\<lambda>_.
     io_return ())))))"

section \<open>Traces of runs\<close>

text \<open>
  The events a statement adds to the trace when it runs in world \<open>w\<close>.
\<close>

definition events_of :: "('s, 'a) io \<Rightarrow> 's world \<Rightarrow> event list" where
  "events_of m w = drop (length (trace w)) (trace (snd (m w)))"

text \<open>
  \<open>emits P Q m\<close>: whatever the world, \<open>m\<close> only appends to the trace, every event it
  appends satisfies \<open>P\<close>, and a value it returns satisfies \<open>Q\<close>.
\<close>

definition emits :: "(event \<Rightarrow> bool) \<Rightarrow> ('a \<Rightarrow> bool) \<Rightarrow> ('s, 'a) io \<Rightarrow> bool" where
  "emits P Q m \<longleftrightarrow>
     (\<forall>w. \<exists>evs. trace (snd (m w)) = trace w @ evs \<and> list_all P evs
              \<and> (\<forall>x. fst (m w) = Inr x \<longrightarrow> Q x))"

text \<open>
  A list of events and a result fit a run that stops at the first failure: every call
  returned, or the last call raised, every call before it returned, and the result is
  the error it raised.
\<close>

definition fail_stop :: "event list \<Rightarrow> error + 'a \<Rightarrow> bool" where
  "fail_stop evs r \<longleftrightarrow>
     list_all (\<lambda>ev. snd ev = Returned) evs
     \<or> (\<exists>pre c e. evs = pre @ [(c, Raised e)] \<and> list_all (\<lambda>ev. snd ev = Returned) pre
           \<and> r = Inl e)"

definition stops_at_failure :: "('s, 'a) io \<Rightarrow> bool" where
  "stops_at_failure m \<longleftrightarrow>
     (\<forall>w. \<exists>evs. trace (snd (m w)) = trace w @ evs \<and> fail_stop evs (fst (m w)))"

fun is_write :: "call \<Rightarrow> bool" where
  "is_write (ImWrite f img) = True"
| "is_write _ = False"

fun is_infer :: "component \<Rightarrow> call \<Rightarrow> bool" where
  "is_infer c (InferNewRequest c' feed_dict) = (c = c')"
| "is_infer c _ = False"



section \<open>What the external components are assumed to do\<close>

text \<open>
  The tokenizer, the text encoder and the decoder are not part of the script. Where a
  statement about the script depends on what they return, the dependency is one of the
  following assumptions, named in the statement.

  A tokenizer called with \<^verbatim>\<open>padding="max_length"\<close> and \<^verbatim>\<open>truncation=True\<close> returns
  exactly \<^verbatim>\<open>max_length\<close> ids.
\<close>

definition pads_and_truncates :: "tokenizer \<Rightarrow> bool" where
  "pads_and_truncates tk \<longleftrightarrow>
     (\<forall>text n toks. input_ids tk text ''max_length'' n True = Inr toks \<longrightarrow> length toks = n)"

text \<open>The outputs of the text encoder have as many rows as the batch of token rows.\<close>

definition batch_preserving :: "compiled_model \<Rightarrow> bool" where
  "batch_preserving m \<longleftrightarrow>
     (\<forall>a outs. m [(''tokens'', IntTensor a)] = Inr outs \<longrightarrow>
        (\<forall>out \<in> set outs. take 1 (shape out) = take 1 (shape a)))"


section \<open>Values and events of the pipeline, apart from its effects\<close>

text \<open>
  The value lines 57-65 compute for a text, and the value lines 57-80 compute: the
  tokenizer and the text encoder are functions, so these do not depend on the world.
\<close>

definition embedding_of :: "'s StableDiffusion \<Rightarrow> string \<Rightarrow> error + real ndarray" where
  "embedding_of sd text =
     err_bind (input_ids (tokenizer sd) text ''max_length'' (model_max_length (tokenizer sd)) True)
       (\<lambda>tokens.
     err_bind (text_encoder sd [(''tokens'', IntTensor (np_array_row tokens))]) result)"

definition conditioning_of :: "'s StableDiffusion \<Rightarrow> string \<Rightarrow> real \<Rightarrow> error + real ndarray" where
  "conditioning_of sd prompt guidance_scale =
     err_bind (embedding_of sd prompt) (\<lambda>text_embeddings.
     if 1 < guidance_scale
     then err_bind (embedding_of sd []) (\<lambda>uncond_embeddings.
          np_concatenate uncond_embeddings text_embeddings)
     else Inr text_embeddings)"


text \<open>
  The calls \<^verbatim>\<open>StableDiffusion.__call__\<close> can make, with what is known of their arguments.
\<close>

inductive call_event ::
  "'s StableDiffusion \<Rightarrow> string \<Rightarrow> int \<Rightarrow> real \<Rightarrow> real \<Rightarrow> string \<Rightarrow> string
     \<Rightarrow> (string \<times> pyval) list \<Rightarrow> event \<Rightarrow> bool"
  for sd :: "'s StableDiffusion" and prompt :: string and num_inference_steps :: int
    and guidance_scale :: real and eta :: real and server :: string and token :: string
    and next_prompt :: "(string \<times> pyval) list"
where
  tokenize_prompt:
    "call_event sd prompt num_inference_steps guidance_scale eta server token next_prompt
       (Tokenize prompt ''max_length'' (model_max_length (tokenizer sd)) True, out)"
| tokenize_empty:
    "1 < guidance_scale \<Longrightarrow>
     call_event sd prompt num_inference_steps guidance_scale eta server token next_prompt
       (Tokenize [] ''max_length'' (model_max_length (tokenizer sd)) True, out)"
| encode:
    "input_ids (tokenizer sd) text ''max_length'' (model_max_length (tokenizer sd)) True
       = Inr tokens \<Longrightarrow>
     text = prompt \<or> 1 < guidance_scale \<and> text = [] \<Longrightarrow>
     call_event sd prompt num_inference_steps guidance_scale eta server token next_prompt
       (InferNewRequest TextEncoder [(''tokens'', IntTensor (np_array_row tokens))], out)"
| draw:
    "call_event sd prompt num_inference_steps guidance_scale eta server token next_prompt
       (Randn (latent_shape sd), out)"
| configure:
    "call_event sd prompt num_inference_steps guidance_scale eta server token next_prompt
       (SetTimesteps num_inference_steps (extra_set_kwargs (scheduler sd)), out)"
| denoise:
    "conditioning_of sd prompt guidance_scale = Inr text_embeddings \<Longrightarrow>
     model_input =
       (if 1 < guidance_scale
        then NdArray (2 # shape (latents :: real ndarray)) (map f (data latents @ data latents))
        else NdArray (shape latents) (map f (data latents))) \<Longrightarrow>
     call_event sd prompt num_inference_steps guidance_scale eta server token next_prompt
       (InferNewRequest UNet
          [(''latent_model_input'', FloatTensor model_input),
           (''t'', FloatScalar t),
           (''encoder_hidden_states'', FloatTensor text_embeddings)], out)"
| report:
    "dict_get next_prompt ''id'' = Inr prompt_id \<Longrightarrow>
     generated_percent i num_inference_steps = Inr pct \<Longrightarrow>
     call_event sd prompt num_inference_steps guidance_scale eta server token next_prompt
       (RequestsPut (server @ ''/prompt/'' @ format_py prompt_id @ ''?token='' @ token) True pct,
        out)"
| update:
    "call_event sd prompt num_inference_steps guidance_scale eta server token next_prompt
       (Step noise_pred
          (if isinstance_LMSDiscreteScheduler (scheduler sd) then StepIndex i else Timestep t)
          latents (extra_step_kwargs (scheduler sd) eta), out)"
| decoding:
    "call_event sd prompt num_inference_steps guidance_scale eta server token next_prompt
       (InferNewRequest VAEDecoder [(''latents'', FloatTensor (np_expand_dims latents))], out)"

text \<open>The calls \<^verbatim>\<open>StableDiffusion.__init__\<close> can make.\<close>

inductive init_event :: "string \<Rightarrow> string \<Rightarrow> string \<Rightarrow> event \<Rightarrow> bool"
  for model :: string and tokenizer_name :: string and device :: string
where
  from_pretrained: "init_event model tokenizer_name device (FromPretrained tokenizer_name, out)"
| core: "init_event model tokenizer_name device (NewCore, out)"
| download: "init_event model tokenizer_name device (HfHubDownload model filename, out)"
| read: "init_event model tokenizer_name device (ReadModel xml bin, out)"
| compile: "init_event model tokenizer_name device (CompileModel m device, out)"

text \<open>What is known of the object \<^verbatim>\<open>__init__\<close> returns.\<close>

definition built_by :: "'s env \<Rightarrow> 's scheduler \<Rightarrow> 's StableDiffusion \<Rightarrow> bool" where
  "built_by env sch sd \<longleftrightarrow>
     scheduler sd = sch
     \<and> (\<exists>name. CLIPTokenizer_from_pretrained env name = Inr (tokenizer sd))
     \<and> (\<exists>m device. compile_model env m device = Inr (text_encoder sd))
     \<and> (\<exists>m device. compile_model env m device = Inr (unet sd))
     \<and> (\<exists>m device. compile_model env m device = Inr (vae sd))"

text \<open>
  The calls both entry points can make before \<^verbatim>\<open>cv2.imwrite\<close>, for an optional seed.
\<close>

inductive run_event ::
  "'s env \<Rightarrow> int option \<Rightarrow> string \<Rightarrow> string \<Rightarrow> string \<Rightarrow> int \<Rightarrow> real \<Rightarrow> real \<Rightarrow> string
     \<Rightarrow> string \<Rightarrow> (string \<times> pyval) list \<Rightarrow> event \<Rightarrow> bool"
  for env :: "'s env" and seed :: "int option" and model :: string and tokenizer_name :: string
    and prompt :: string and num_inference_steps :: int and guidance_scale :: real
    and eta :: real and server :: string and token :: string
    and next_prompt :: "(string \<times> pyval) list"
where
  seeding:
    "seed = Some s \<Longrightarrow>
     run_event env seed model tokenizer_name prompt num_inference_steps guidance_scale eta
       server token next_prompt (RandomSeed s, out)"
| new_scheduler:
    "run_event env seed model tokenizer_name prompt num_inference_steps guidance_scale eta
       server token next_prompt
       (NewLMSDiscreteScheduler beta_start beta_end beta_schedule ''np'', out)"
| loading:
    "init_event model tokenizer_name ''CPU'' ev \<Longrightarrow>
     run_event env seed model tokenizer_name prompt num_inference_steps guidance_scale eta
       server token next_prompt ev"
| calling:
    "built_by env ((LMSDiscreteScheduler env)\<lparr>isinstance_LMSDiscreteScheduler := True\<rparr>) sd \<Longrightarrow>
     call_event sd prompt num_inference_steps guidance_scale eta server token next_prompt ev \<Longrightarrow>
     run_event env seed model tokenizer_name prompt num_inference_steps guidance_scale eta
       server token next_prompt ev"

text \<open>
  Both entry points run the same statements up to \<^verbatim>\<open>cv2.imwrite\<close>: seed, scheduler,
  \<^verbatim>\<open>__init__\<close>, \<^verbatim>\<open>__call__\<close>. \<open>generate\<close> names that common part in the proofs; \<open>main\<close> and
  \<open>run_stable_diffusion\<close> above are defined without it.
\<close>

definition generate ::
  "'s env \<Rightarrow> int option \<Rightarrow> real \<Rightarrow> real \<Rightarrow> string \<Rightarrow> string \<Rightarrow> string \<Rightarrow> string \<Rightarrow> int
     \<Rightarrow> real \<Rightarrow> real \<Rightarrow> string \<Rightarrow> string \<Rightarrow> (string \<times> pyval) list \<Rightarrow> ('s, 8 word ndarray) io" where
  "generate env seed beta_start beta_end beta_schedule model tokenizer_name prompt
       num_inference_steps guidance_scale eta server token next_prompt =
     io_bind (case seed of None \<Rightarrow> io_return () | Some s \<Rightarrow> random_seed env s) (\<lambda>_.
     io_bind (new_LMSDiscreteScheduler env beta_start beta_end beta_schedule ''np'') (\<lambda>sch.
     io_bind (StableDiffusion_init env sch model tokenizer_name ''CPU'') (\<lambda>sd.
     StableDiffusion_call env sd prompt num_inference_steps guidance_scale eta server token
       next_prompt)))"


section \<open>Counting calls, and the end-to-end scenario\<close>






section \<open>A small environment to run the script in\<close>

text \<open>
  Stand-ins for the external components, small enough to evaluate by hand: a tokenizer
  with \<^verbatim>\<open>model_max_length = 4\<close> that pads with 0 and truncates, a text encoder that sums
  the token ids of its batch, a denoiser that adds \<open>k\<close> to the \<open>k\<close>-th element of its
  input, a decoder with a fixed output of shape \<open>[1, 3, 1, 2]\<close>, an LMS scheduler whose
  state is the number of steps and whose noise levels are all \<open>3 / 4\<close>, a generator that
  returns \<open>k\<close> as its \<open>k\<close>-th sample, and network and file calls that succeed.
\<close>

definition demo_tokenizer :: tokenizer where
  "demo_tokenizer =
     \<lparr>model_max_length = 4,
      input_ids = (\<lambda>text padding max_len truncation.
        if padding = ''max_length'' \<and> truncation
        then Inr (take max_len (map (\<lambda>c. int (of_char c)) text)
                   @ replicate (max_len - length text) 0)
        else Inr (map (\<lambda>c. int (of_char c)) text))\<rparr>"

definition demo_text_encoder :: compiled_model where
  "demo_text_encoder feed_dict =
     (case map_of feed_dict ''tokens'' of
        Some (IntTensor a) \<Rightarrow>
          (case shape a of
             [] \<Rightarrow> Inl (External ''text_encoder: bad input'')
           | b # _ \<Rightarrow> Inr [NdArray [b, 1] [of_int (sum_list (data a))]])
      | _ \<Rightarrow> Inl (External ''text_encoder: bad input''))"

definition demo_unet :: compiled_model where
  "demo_unet feed_dict =
     (case map_of feed_dict ''latent_model_input'' of
        Some (FloatTensor a) \<Rightarrow>
          Inr [NdArray (shape a) (map2 (+) (data a) (map real [0..<length (data a)]))]
      | _ \<Rightarrow> Inl (External ''unet: bad input''))"

definition demo_vae :: compiled_model where
  "demo_vae feed_dict =
     (case map_of feed_dict ''latents'' of
        Some (FloatTensor a) \<Rightarrow> Inr [NdArray [1, 3, 1, 2] [1, -1, 0, 1 / 2, 3, -3]]
      | _ \<Rightarrow> Inl (External ''vae_decoder: bad input''))"

definition demo_scheduler :: "nat scheduler" where
  "demo_scheduler =
     \<lparr>isinstance_LMSDiscreteScheduler = True,
      set_timesteps_parameters = [''num_inference_steps''],
      step_parameters = [''model_output'', ''timestep'', ''sample'', ''order''],
      set_timesteps = (\<lambda>n kw s. if 0 \<le> n then Inr (nat n) else Inl ValueError),
      step = (\<lambda>model_output a sample kw s.
                Inr ([(''prev_sample'', nd_map2 (-) sample model_output)], s)),
      timesteps = (\<lambda>s. map real (rev [0..<s])),
      sigmas = (\<lambda>s. replicate (Suc s) (3 / 4))\<rparr>"

definition demo_env :: "nat env" where
  "demo_env =
     \<lparr>CLIPTokenizer_from_pretrained = (\<lambda>name. Inr demo_tokenizer),
      Core = Inr (),
      hf_hub_download = (\<lambda>history repo_id filename. Inr filename),
      read_model = (\<lambda>xml bin. Inr \<lparr>model_xml = xml, model_bin = bin, inputs = [[2, 1, 1, 2]]\<rparr>),
      compile_model = (\<lambda>m device.
        Inr (if model_xml m = ''text_encoder.xml'' then demo_text_encoder
             else if model_xml m = ''unet.xml'' then demo_unet
             else demo_vae)),
      np_random_seed = (\<lambda>seed. if 0 \<le> seed \<and> seed < 2 ^ 32 then Inr () else Inl ValueError),
      np_random_randn = (\<lambda>g k. real k),
      LMSDiscreteScheduler = demo_scheduler,
      LMSDiscreteScheduler_init = (\<lambda>beta_start beta_end beta_schedule tensor_format. Inr 0),
      requests_put = (\<lambda>history url being_generated pct. Inr ()),
      cv2_imwrite = (\<lambda>filename img. Inr True)\<rparr>"

definition demo_world :: "nat world" where
  "demo_world = \<lparr>trace = [], np_random = Unseeded, scheduler_state = 0\<rparr>"

definition demo_sd :: "nat StableDiffusion" where
  "demo_sd =
     \<lparr>tokenizer = demo_tokenizer, scheduler = demo_scheduler,
      text_encoder = demo_text_encoder, unet = demo_unet, latent_shape = [1, 1, 2],
      vae = demo_vae\<rparr>"

text \<open>The same environment with a progress report that fails.\<close>

definition offline_env :: "nat env" where
  "offline_env = demo_env\<lparr>requests_put :=
     (\<lambda>history url being_generated pct. Inl (External ''ConnectionError''))\<rparr>"

text \<open>A world in which the scheduler has been set to two steps.\<close>

definition demo_world2 :: "nat world" where
  "demo_world2 = \<lparr>trace = [], np_random = Seeded 7, scheduler_state = 2\<rparr>"




text \<open>The command line of \<open>default_args\<close> with two inference steps.\<close>

definition two_steps :: args where
  "two_steps = default_args\<lparr>args_num_inference_steps := 2\<rparr>"

section \<open>Rounding and the reported percentage\<close>












section \<open>Evaluating the script on the small environment\<close>

lemmas io_defs = io_bind_def io_return_def io_lift_def external_def outcome_of_def
  infer_new_request_def call_tokenizer_def random_seed_def random_randn_def
  scheduler_set_timesteps_def scheduler_step_def scheduler_timesteps_def scheduler_sigmas_def
  put_def download_def err_bind_def result_def dict_get_def list_get_def enumerate_py_def
  imwrite_def new_LMSDiscreteScheduler_def

lemmas pipeline_defs = load_model_def StableDiffusion_init_def embed_def text_conditioning_def
  extra_set_kwargs_def extra_step_kwargs_def latent_model_input_def perform_guidance_def
  advance_def iteration_def postprocess_def decode_def initial_latents_def
  StableDiffusion_call_def main_def run_stable_diffusion_def

lemmas nd_defs = np_array_row_def np_concatenate_def np_stack_def np_expand_dims_def
  nd_index_def nd_map_def nd_map2_def nd_transpose_120_def nd_reverse_axis2_def to_uint8_def

lemmas demo_defs = demo_env_def demo_world_def demo_scheduler_def demo_vae_def demo_unet_def
  demo_text_encoder_def demo_tokenizer_def demo_sd_def

lemma sqrt_demo_sigma: "sqrt ((3 / 4)\<^sup>2 + 1) = 5 / 4"
proof -
  have "(3 / 4 :: real)\<^sup>2 + 1 = (5 / 4)\<^sup>2" by (simp add: power2_eq_square)
  then have "sqrt ((3 / 4)\<^sup>2 + 1) = \<bar>5 / 4 :: real\<bar>" by (simp only: real_sqrt_abs)
  then show ?thesis by simp
qed

lemmas run_defs = io_defs pipeline_defs nd_defs demo_defs default_args_def
  generated_percent_def percent_def py_round_def Let_def events_of_def sqrt_demo_sigma

lemma format_py_0: "format_py (PyInt 0) = ''0''"
  by code_simp

lemma format_py_12: "format_py (PyInt 12) = ''12''"
  by code_simp

lemma replicate_numeral_unfold:
  "replicate (numeral k) x = x # replicate (pred_numeral k) x"
  by (simp add: numeral_eq_Suc)

section \<open>Sequencing and traces\<close>

lemma io_bind_Inl: "fst (m w) = Inl e \<Longrightarrow> io_bind m f w = (Inl e, snd (m w))"
  by (cases "m w") (simp add: io_bind_def)

lemma io_bind_Inr: "fst (m w) = Inr x \<Longrightarrow> io_bind m f w = f x (snd (m w))"
  by (cases "m w") (simp add: io_bind_def)

lemma emits_events_of: "emits P Q m \<Longrightarrow> list_all P (events_of m w)"
  by (auto simp: emits_def events_of_def dest!: spec [of _ w])



lemma emits_return: "Q x \<Longrightarrow> emits P Q (io_return x)"
  by (simp add: emits_def io_return_def)

lemma emits_lift: "(\<And>x. r = Inr x \<Longrightarrow> Q x) \<Longrightarrow> emits P Q (io_lift r)"
  by (simp add: emits_def io_lift_def)

lemma emits_external:
  "P (c, outcome_of r) \<Longrightarrow> (\<And>x. r = Inr x \<Longrightarrow> Q x) \<Longrightarrow> emits P Q (external c r)"
  by (simp add: emits_def external_def)

lemma emits_bind:
  assumes m: "emits P Q m" and f: "\<And>x. Q x \<Longrightarrow> emits P R (f x)"
  shows "emits P R (io_bind m f)"
  unfolding emits_def
proof
  fix w
  from m obtain e1 where e1: "trace (snd (m w)) = trace w @ e1" "list_all P e1"
    and q: "\<And>x. fst (m w) = Inr x \<Longrightarrow> Q x"
    unfolding emits_def by blast
  show "\<exists>evs. trace (snd (io_bind m f w)) = trace w @ evs \<and> list_all P evs
           \<and> (\<forall>x. fst (io_bind m f w) = Inr x \<longrightarrow> R x)"
  proof (cases "fst (m w)")
    case (Inl e)
    then have "io_bind m f w = (Inl e, snd (m w))"
      by (rule io_bind_Inl)
    with e1 show ?thesis by auto
  next
    case (Inr x)
    then have b: "io_bind m f w = f x (snd (m w))"
      by (rule io_bind_Inr)
    from f [OF q [OF Inr]] obtain e2 where
      e2: "trace (snd (f x (snd (m w)))) = trace (snd (m w)) @ e2" "list_all P e2"
      and r: "\<And>y. fst (f x (snd (m w))) = Inr y \<Longrightarrow> R y"
      unfolding emits_def by blast
    show ?thesis using e1 e2 r b by auto
  qed
qed

lemma emits_weaken: "emits P Q m \<Longrightarrow> (\<And>x. Q x \<Longrightarrow> Q' x) \<Longrightarrow> emits P Q' m"
  by (auto simp: emits_def) blast

lemma fail_stop_Inr: "fail_stop evs (Inr x) \<Longrightarrow> list_all (\<lambda>ev. snd ev = Returned) evs"
  by (auto simp: fail_stop_def)

lemma fail_stop_Nil: "fail_stop [] r"
  by (simp add: fail_stop_def)

lemma fail_stop_append:
  "list_all (\<lambda>ev. snd ev = Returned) e1 \<Longrightarrow> fail_stop e2 r \<Longrightarrow> fail_stop (e1 @ e2) r"
  by (auto simp: fail_stop_def)

lemma stops_return: "stops_at_failure (io_return x)"
  by (simp add: stops_at_failure_def io_return_def fail_stop_Nil)

lemma stops_lift: "stops_at_failure (io_lift r)"
  by (simp add: stops_at_failure_def io_lift_def fail_stop_Nil)

lemma stops_external: "stops_at_failure (external c r)"
  by (cases r) (auto simp: stops_at_failure_def external_def fail_stop_def outcome_of_def)

lemma stops_bind:
  assumes m: "stops_at_failure m" and f: "\<And>x. stops_at_failure (f x)"
  shows "stops_at_failure (io_bind m f)"
  unfolding stops_at_failure_def
proof
  fix w
  from m obtain e1 where e1: "trace (snd (m w)) = trace w @ e1" "fail_stop e1 (fst (m w))"
    unfolding stops_at_failure_def by blast
  show "\<exists>evs. trace (snd (io_bind m f w)) = trace w @ evs \<and> fail_stop evs (fst (io_bind m f w))"
  proof (cases "fst (m w)")
    case (Inl e)
    then have "io_bind m f w = (Inl e, snd (m w))"
      by (rule io_bind_Inl)
    with e1 Inl show ?thesis by (auto simp: fail_stop_def)
  next
    case (Inr x)
    then have b: "io_bind m f w = f x (snd (m w))"
      by (rule io_bind_Inr)
    from f [of x] obtain e2 where
      e2: "trace (snd (f x (snd (m w)))) = trace (snd (m w)) @ e2"
          "fail_stop e2 (fst (f x (snd (m w))))"
      unfolding stops_at_failure_def by blast
    from e1 Inr have "list_all (\<lambda>ev. snd ev = Returned) e1" by (simp add: fail_stop_Inr)
    then have "fail_stop (e1 @ e2) (fst (f x (snd (m w))))" using e2(2) by (rule fail_stop_append)
    then show ?thesis using e1 e2 b by auto
  qed
qed

lemma io_bind_assoc: "io_bind (io_bind m f) g = io_bind m (\<lambda>x. io_bind (f x) g)"
  by (rule ext) (simp add: io_bind_def split: prod.splits sum.splits)


lemma io_bind_lift_Inr: "io_bind (io_lift (Inr x)) f = f x"
  by (rule ext) (simp add: io_bind_def io_lift_def)

lemma io_bind_lift_Inl: "io_bind (io_lift (Inl e)) f = io_lift (Inl e)"
  by (rule ext) (simp add: io_bind_def io_lift_def)

subsection \<open>Every statement stops at the first failure\<close>

lemma stops_if: "stops_at_failure m \<Longrightarrow> stops_at_failure n \<Longrightarrow> stops_at_failure (if b then m else n)"
  by simp

lemma stops_infer: "stops_at_failure (infer_new_request c m feed_dict)"
  by (simp add: infer_new_request_def stops_external)

lemma stops_tokenizer: "stops_at_failure (call_tokenizer tk text padding n tr)"
  by (simp add: call_tokenizer_def stops_external)

lemma fail_stop_single: "fail_stop [(c, outcome_of r)] r"
  by (cases r) (simp_all add: fail_stop_def outcome_of_def)

lemma stops_put: "stops_at_failure (put env url b p)"
  unfolding stops_at_failure_def put_def external_def by (simp add: fail_stop_single)

lemma stops_download: "stops_at_failure (download env repo_id filename)"
  unfolding stops_at_failure_def download_def external_def by (simp add: fail_stop_single)

lemma stops_randn: "stops_at_failure (random_randn env shp)"
  unfolding stops_at_failure_def random_randn_def external_def by (simp add: fail_stop_single)

lemma stops_set_timesteps: "stops_at_failure (scheduler_set_timesteps sch n kw)"
  unfolding stops_at_failure_def scheduler_set_timesteps_def external_def
  by (simp add: fail_stop_single split: sum.splits)

lemma stops_step: "stops_at_failure (scheduler_step sch p a l kw)"
  unfolding stops_at_failure_def scheduler_step_def external_def
  by (simp add: fail_stop_single split: sum.splits prod.splits)

lemma stops_new_scheduler: "stops_at_failure (new_LMSDiscreteScheduler env bs be sc tf)"
  unfolding stops_at_failure_def new_LMSDiscreteScheduler_def external_def
  by (simp add: fail_stop_single split: sum.splits)

lemma stops_pure: "(\<And>w. \<exists>r. m w = (r, w)) \<Longrightarrow> stops_at_failure m"
  unfolding stops_at_failure_def
  by (metis append_Nil2 fail_stop_Nil snd_conv)

lemma stops_timesteps: "stops_at_failure (scheduler_timesteps sch)"
  by (rule stops_pure) (simp add: scheduler_timesteps_def)

lemma stops_sigmas: "stops_at_failure (scheduler_sigmas sch)"
  by (rule stops_pure) (simp add: scheduler_sigmas_def)

lemma stops_seed: "stops_at_failure (random_seed env seed)"
  unfolding random_seed_def
proof (rule stops_bind)
  show "stops_at_failure (external (RandomSeed seed) (np_random_seed env seed))"
    by (rule stops_external)
  show "stops_at_failure (\<lambda>w. (Inr (), w\<lparr>np_random := Seeded seed\<rparr>))" for x :: unit
    unfolding stops_at_failure_def by (simp add: fail_stop_Nil)
qed

lemmas stops_intros = stops_bind stops_return stops_lift stops_external stops_infer
  stops_tokenizer stops_put stops_download stops_randn stops_set_timesteps stops_step
  stops_new_scheduler stops_timesteps stops_sigmas stops_seed

lemma stops_load_model: "stops_at_failure (load_model env model name device)"
  unfolding load_model_def by (intro stops_intros)

lemma stops_init: "stops_at_failure (StableDiffusion_init env sch model tk device)"
  unfolding StableDiffusion_init_def split_def by (intro stops_intros stops_load_model)

lemma stops_embed: "stops_at_failure (embed sd text)"
  unfolding embed_def by (intro stops_intros)

lemma stops_text_conditioning: "stops_at_failure (text_conditioning sd prompt gs)"
  unfolding text_conditioning_def by (intro stops_intros stops_embed stops_if)

lemma stops_latent_model_input: "stops_at_failure (latent_model_input sch gs i l)"
  unfolding latent_model_input_def by (intro stops_intros stops_if)

lemma stops_advance: "stops_at_failure (advance sch kw p i t l)"
  unfolding advance_def by (intro stops_intros)

lemma stops_iteration: "stops_at_failure (iteration env sd n gs server token np emb kw i t l)"
  unfolding iteration_def by (intro stops_intros stops_latent_model_input stops_advance)

lemma stops_sampling_loop:
  assumes "\<And>i t l. stops_at_failure (body i t l)"
  shows "stops_at_failure (sampling_loop body its l)"
proof (induction its arbitrary: l)
  case Nil
  show ?case by (simp add: stops_return)
next
  case (Cons it its)
  obtain i t where it: "it = (i, t)" by (cases it)
  show ?case unfolding it sampling_loop.simps
    by (rule stops_bind) (rule assms, rule Cons.IH)
qed

lemma stops_decode: "stops_at_failure (decode sd l)"
  unfolding decode_def by (intro stops_intros)

lemma stops_initial_latents: "stops_at_failure (initial_latents env sd n)"
  unfolding initial_latents_def by (intro stops_intros stops_if)

lemma stops_call: "stops_at_failure (StableDiffusion_call env sd prompt n gs eta server token np)"
  unfolding StableDiffusion_call_def
  by (intro stops_intros stops_text_conditioning stops_initial_latents stops_sampling_loop
        stops_iteration stops_decode)

lemma stops_imwrite: "stops_at_failure (imwrite env f img)"
  by (simp add: imwrite_def stops_external)

lemma stops_main: "stops_at_failure (main env a)"
  unfolding main_def
  by (intro stops_intros stops_init stops_call stops_imwrite) (simp add: stops_intros split: option.splits)

lemma stops_run: "stops_at_failure (run_stable_diffusion env prompt n seed out server token np)"
  unfolding run_stable_diffusion_def
  by (intro stops_intros stops_init stops_call stops_imwrite)

lemma emits_if:
  "(b \<Longrightarrow> emits P Q m) \<Longrightarrow> (\<not> b \<Longrightarrow> emits P Q n) \<Longrightarrow> emits P Q (if b then m else n)"
  by simp

lemma emits_infer:
  "(\<And>out. P (InferNewRequest c feed_dict, out)) \<Longrightarrow>
   emits P (\<lambda>outs. m feed_dict = Inr outs) (infer_new_request c m feed_dict)"
  by (simp add: infer_new_request_def emits_external)

lemma emits_tokenizer:
  "(\<And>out. P (Tokenize text padding n tr, out)) \<Longrightarrow>
   emits P (\<lambda>toks. input_ids tk text padding n tr = Inr toks) (call_tokenizer tk text padding n tr)"
  by (simp add: call_tokenizer_def emits_external)

lemma emits_put:
  "(\<And>out. P (RequestsPut url b p, out)) \<Longrightarrow> emits P (\<lambda>_. True) (put env url b p)"
  unfolding emits_def put_def external_def by simp

lemma emits_download:
  "(\<And>out. P (HfHubDownload repo_id filename, out)) \<Longrightarrow>
   emits P (\<lambda>_. True) (download env repo_id filename)"
  unfolding emits_def download_def external_def by simp

lemma emits_randn:
  "(\<And>out. P (Randn shp, out)) \<Longrightarrow> emits P (\<lambda>a. shape a = shp) (random_randn env shp)"
  unfolding emits_def random_randn_def external_def by auto

lemma emits_set_timesteps:
  "(\<And>out. P (SetTimesteps n kw, out)) \<Longrightarrow> emits P (\<lambda>_. True) (scheduler_set_timesteps sch n kw)"
  unfolding emits_def scheduler_set_timesteps_def external_def by (simp split: sum.splits)

lemma emits_step:
  "(\<And>out. P (Step p a l kw, out)) \<Longrightarrow> emits P (\<lambda>_. True) (scheduler_step sch p a l kw)"
  unfolding emits_def scheduler_step_def external_def by (simp split: sum.splits prod.splits)

lemma emits_new_scheduler:
  "(\<And>out. P (NewLMSDiscreteScheduler bs be sc tf, out)) \<Longrightarrow>
   emits P (\<lambda>sch. sch = (LMSDiscreteScheduler env)\<lparr>isinstance_LMSDiscreteScheduler := True\<rparr>)
     (new_LMSDiscreteScheduler env bs be sc tf)"
  unfolding emits_def new_LMSDiscreteScheduler_def external_def by (auto split: sum.splits)

lemma emits_timesteps: "emits P (\<lambda>_. True) (scheduler_timesteps sch)"
  unfolding emits_def scheduler_timesteps_def by simp

lemma emits_sigmas: "emits P (\<lambda>_. True) (scheduler_sigmas sch)"
  unfolding emits_def scheduler_sigmas_def by simp

lemma emits_seed:
  "(\<And>out. P (RandomSeed seed, out)) \<Longrightarrow> emits P (\<lambda>_. True) (random_seed env seed)"
  unfolding emits_def random_seed_def external_def io_bind_def by (auto split: sum.splits)

lemma emits_imwrite:
  "(\<And>out. P (ImWrite f img, out)) \<Longrightarrow> emits P (\<lambda>_. True) (imwrite env f img)"
  by (simp add: imwrite_def emits_external)

lemma emits_True: "emits P Q m \<Longrightarrow> emits P (\<lambda>_. True) m"
  by (auto simp: emits_def)

lemma emits_sampling_loop:
  assumes "\<And>i t l. emits P (\<lambda>_. True) (body i t l)"
  shows "emits P (\<lambda>_. True) (sampling_loop body its l)"
proof (induction its arbitrary: l)
  case Nil
  show ?case by (simp add: emits_return)
next
  case (Cons it its)
  obtain i t where it: "it = (i, t)" by (cases it)
  show ?case unfolding it sampling_loop.simps
    by (rule emits_bind) (rule assms, rule Cons.IH)
qed


lemma emits_embed:
  assumes "text = prompt \<or> 1 < gs \<and> text = []"
  shows "emits (call_event sd prompt n gs eta server token np)
           (\<lambda>e. embedding_of sd text = Inr e) (embed sd text)"
  unfolding embed_def
proof (rule emits_bind [OF emits_tokenizer])
  show "call_event sd prompt n gs eta server token np
          (Tokenize text ''max_length'' (model_max_length (tokenizer sd)) True, out)" for out
    using assms by (auto intro: call_event.intros)
next
  fix toks
  assume toks: "input_ids (tokenizer sd) text ''max_length'' (model_max_length (tokenizer sd)) True
                  = Inr toks"
  show "emits (call_event sd prompt n gs eta server token np) (\<lambda>e. embedding_of sd text = Inr e)
          (io_bind (infer_new_request TextEncoder (text_encoder sd)
                      [(''tokens'', IntTensor (np_array_row toks))])
             (\<lambda>outputs. io_lift (result outputs)))"
  proof (rule emits_bind [OF emits_infer])
    show "call_event sd prompt n gs eta server token np
            (InferNewRequest TextEncoder [(''tokens'', IntTensor (np_array_row toks))], out)" for out
      using toks assms by (rule call_event.encode)
  next
    fix outs
    assume "text_encoder sd [(''tokens'', IntTensor (np_array_row toks))] = Inr outs"
    then show "emits (call_event sd prompt n gs eta server token np)
                 (\<lambda>e. embedding_of sd text = Inr e) (io_lift (result outs))"
      using toks by (intro emits_lift) (simp add: embedding_of_def err_bind_def)
  qed
qed

lemma emits_text_conditioning:
  "emits (call_event sd prompt n gs eta server token np)
     (\<lambda>e. conditioning_of sd prompt gs = Inr e) (text_conditioning sd prompt gs)"
  unfolding text_conditioning_def
proof (rule emits_bind [OF emits_embed])
  show "prompt = prompt \<or> 1 < gs \<and> prompt = []" by simp
next
  fix c
  assume c: "embedding_of sd prompt = Inr c"
  show "emits (call_event sd prompt n gs eta server token np)
          (\<lambda>e. conditioning_of sd prompt gs = Inr e)
          (if 1 < gs
           then io_bind (embed sd []) (\<lambda>uncond_embeddings.
                  io_lift (np_concatenate uncond_embeddings c))
           else io_return c)"
  proof (rule emits_if)
    assume gs: "1 < gs"
    show "emits (call_event sd prompt n gs eta server token np)
            (\<lambda>e. conditioning_of sd prompt gs = Inr e)
            (io_bind (embed sd []) (\<lambda>uncond_embeddings.
               io_lift (np_concatenate uncond_embeddings c)))"
    proof (rule emits_bind [OF emits_embed])
      show "[] = prompt \<or> 1 < gs \<and> ([]::string) = []" using gs by simp
    next
      fix u
      assume "embedding_of sd [] = Inr u"
      then show "emits (call_event sd prompt n gs eta server token np)
                   (\<lambda>e. conditioning_of sd prompt gs = Inr e) (io_lift (np_concatenate u c))"
        using c gs by (intro emits_lift) (simp add: conditioning_of_def err_bind_def)
    qed
  next
    assume "\<not> 1 < gs"
    then show "emits (call_event sd prompt n gs eta server token np)
                 (\<lambda>e. conditioning_of sd prompt gs = Inr e) (io_return c)"
      using c by (intro emits_return) (simp add: conditioning_of_def err_bind_def)
  qed
qed

lemma emits_initial_latents:
  "emits (call_event sd prompt n gs eta server token np) (\<lambda>_. True) (initial_latents env sd n)"
  unfolding initial_latents_def
  by (intro emits_bind [OF emits_randn] emits_bind [OF emits_set_timesteps] emits_if
        emits_bind [OF emits_sigmas] emits_bind [OF emits_lift] emits_return
        call_event.draw call_event.configure)
     simp_all

lemma np_stack_same: "np_stack [a, a] = Inr (NdArray (2 # shape a) (data a @ data a))"
  by (simp add: np_stack_def)

lemma emits_latent_model_input:
  "emits P
     (\<lambda>x. \<exists>f. x = (if 1 < gs then NdArray (2 # shape l) (map f (data l @ data l))
                    else NdArray (shape l) (map f (data l))))
     (latent_model_input sch gs i l)"
proof -
  let ?Q = "\<lambda>x. \<exists>f. x = (if 1 < gs then NdArray (2 # shape l) (map f (data l @ data l))
                           else NdArray (shape l) (map f (data l)))"
  let ?stacked = "if 1 < gs then NdArray (2 # shape l) (data l @ data l) else l"
  have plain: "?Q ?stacked"
    by (rule exI [of _ "\<lambda>v. v"]) (cases l, simp)
  have scaled: "?Q (nd_map g ?stacked)" for g
    by (rule exI [of _ g]) (simp add: nd_map_def)
  have st: "(if 1 < gs then np_stack [l, l] else Inr l) = Inr ?stacked"
    by (simp add: np_stack_same)
  show ?thesis
    unfolding latent_model_input_def st io_bind_lift_Inr
    by (intro emits_if emits_bind [OF emits_sigmas] emits_bind [OF emits_lift [OF TrueI]]
          emits_return plain scaled)
qed

lemma emits_advance:
  "emits (call_event sd prompt n gs eta server token np) (\<lambda>_. True)
     (advance (scheduler sd) (extra_step_kwargs (scheduler sd) eta) p i t l)"
  unfolding advance_def
  by (intro emits_bind [OF emits_step] emits_lift call_event.update) simp

lemma emits_iteration:
  assumes emb: "conditioning_of sd prompt gs = Inr emb"
  shows "emits (call_event sd prompt n gs eta server token np) (\<lambda>_. True)
           (iteration env sd n gs server token np emb (extra_step_kwargs (scheduler sd) eta) i t l)"
  unfolding iteration_def
proof (rule emits_bind [OF emits_latent_model_input])
  fix x :: "real ndarray"
  assume "\<exists>f. x = (if 1 < gs then NdArray (2 # shape l) (map f (data l @ data l))
                   else NdArray (shape l) (map f (data l)))"
  then obtain f where x: "x = (if 1 < gs then NdArray (2 # shape l) (map f (data l @ data l))
                               else NdArray (shape l) (map f (data l)))" ..
  have ev: "call_event sd prompt n gs eta server token np
              (InferNewRequest UNet
                 [(''latent_model_input'', FloatTensor x), (''t'', FloatScalar t),
                  (''encoder_hidden_states'', FloatTensor emb)], out)" for out
    using emb x by (rule call_event.denoise)
  show "emits (call_event sd prompt n gs eta server token np) (\<lambda>_. True)
          (io_bind (infer_new_request UNet (unet sd)
                      [(''latent_model_input'', FloatTensor x), (''t'', FloatScalar t),
                       (''encoder_hidden_states'', FloatTensor emb)]) (\<lambda>outputs.
           io_bind (io_lift (result outputs)) (\<lambda>noise_pred.
           io_bind (io_lift (generated_percent i n)) (\<lambda>pct.
           io_bind (io_lift (dict_get np ''id'')) (\<lambda>prompt_id.
           io_bind (put env (server @ ''/prompt/'' @ format_py prompt_id @ ''?token='' @ token)
                      True pct) (\<lambda>_.
           io_bind (io_lift (perform_guidance gs noise_pred)) (\<lambda>guided.
           advance (scheduler sd) (extra_step_kwargs (scheduler sd) eta) guided i t l)))))))"
  proof (rule emits_bind [OF emits_infer], rule ev, rule emits_bind [OF emits_lift [OF TrueI]])
    fix outs noise_pred
    show "emits (call_event sd prompt n gs eta server token np) (\<lambda>_. True)
           (io_bind (io_lift (generated_percent i n)) (\<lambda>pct.
            io_bind (io_lift (dict_get np ''id'')) (\<lambda>prompt_id.
            io_bind (put env (server @ ''/prompt/'' @ format_py prompt_id @ ''?token='' @ token)
                       True pct) (\<lambda>_.
            io_bind (io_lift (perform_guidance gs noise_pred)) (\<lambda>guided.
            advance (scheduler sd) (extra_step_kwargs (scheduler sd) eta) guided i t l)))))"
    proof (rule emits_bind [where Q = "\<lambda>pct. generated_percent i n = Inr pct"])
      show "emits (call_event sd prompt n gs eta server token np)
              (\<lambda>pct. generated_percent i n = Inr pct) (io_lift (generated_percent i n))"
        by (rule emits_lift)
    next
      fix pct
      assume pct: "generated_percent i n = Inr pct"
      show "emits (call_event sd prompt n gs eta server token np) (\<lambda>_. True)
              (io_bind (io_lift (dict_get np ''id'')) (\<lambda>prompt_id.
               io_bind (put env (server @ ''/prompt/'' @ format_py prompt_id @ ''?token='' @ token)
                          True pct) (\<lambda>_.
               io_bind (io_lift (perform_guidance gs noise_pred)) (\<lambda>guided.
               advance (scheduler sd) (extra_step_kwargs (scheduler sd) eta) guided i t l))))"
      proof (rule emits_bind [where Q = "\<lambda>prompt_id. dict_get np ''id'' = Inr prompt_id"])
        show "emits (call_event sd prompt n gs eta server token np)
                (\<lambda>prompt_id. dict_get np ''id'' = Inr prompt_id) (io_lift (dict_get np ''id''))"
          by (rule emits_lift)
      next
        fix prompt_id
        assume pid: "dict_get np ''id'' = Inr prompt_id"
        show "emits (call_event sd prompt n gs eta server token np) (\<lambda>_. True)
                (io_bind (put env (server @ ''/prompt/'' @ format_py prompt_id @ ''?token='' @ token)
                            True pct) (\<lambda>_.
                 io_bind (io_lift (perform_guidance gs noise_pred)) (\<lambda>guided.
                 advance (scheduler sd) (extra_step_kwargs (scheduler sd) eta) guided i t l)))"
          by (intro emits_bind [OF emits_put] emits_bind [OF emits_lift [OF TrueI]] emits_advance
                call_event.report [OF pid pct])
      qed
    qed
  qed
qed

lemma emits_decode:
  "emits (call_event sd prompt n gs eta server token np) (\<lambda>_. True) (decode sd l)"
  unfolding decode_def
  by (intro emits_bind [OF emits_infer] emits_bind [OF emits_lift [OF TrueI]] emits_lift
        call_event.decoding) simp

lemma emits_call:
  "emits (call_event sd prompt n gs eta server token np) (\<lambda>_. True)
     (StableDiffusion_call env sd prompt n gs eta server token np)"
  unfolding StableDiffusion_call_def
  by (intro emits_bind [OF emits_text_conditioning] emits_bind [OF emits_initial_latents]
        emits_bind [OF emits_timesteps] emits_bind [OF emits_sampling_loop] emits_iteration
        emits_decode)

lemma emits_mono: "emits P Q m \<Longrightarrow> (\<And>ev. P ev \<Longrightarrow> P' ev) \<Longrightarrow> emits P' Q m"
  unfolding emits_def by (metis (mono_tags, lifting) list.pred_mono_strong)

lemma emits_load_model:
  "emits (init_event model tk device) (\<lambda>(m, c). compile_model env m device = Inr c)
     (load_model env model name device)"
  unfolding load_model_def
  by (intro emits_bind [OF emits_download] emits_bind [OF emits_external [where Q = "\<lambda>_. True"]]
        emits_bind [OF emits_external [where Q = "\<lambda>c. compile_model env m device = Inr c" for m]]
        emits_return init_event.intros)
     simp_all

lemma emits_init:
  "emits (init_event model tk device) (built_by env sch)
     (StableDiffusion_init env sch model tk device)"
  unfolding StableDiffusion_init_def
proof (rule emits_bind [OF emits_external
          [where Q = "\<lambda>t. CLIPTokenizer_from_pretrained env tk = Inr t"]])
  show "init_event model tk device
          (FromPretrained tk, outcome_of (CLIPTokenizer_from_pretrained env tk))"
    by (rule init_event.from_pretrained)
next
  fix t
  assume t: "CLIPTokenizer_from_pretrained env tk = Inr t"
  show "emits (init_event model tk device) (built_by env sch)
          (io_bind (external NewCore (Core env)) (\<lambda>_.
           io_bind (load_model env model ''text_encoder'' device) (\<lambda>(_, te).
           io_bind (load_model env model ''unet'' device) (\<lambda>(unet_model, un).
           io_bind (io_lift (list_get (inputs unet_model) 0)) (\<lambda>input0.
           io_bind (load_model env model ''vae_decoder'' device) (\<lambda>(_, va).
           io_return \<lparr>tokenizer = t, scheduler = sch, text_encoder = te, unet = un,
                       latent_shape = tl input0, vae = va\<rparr>))))))"
  proof (rule emits_bind [OF emits_external [where Q = "\<lambda>_. True"]])
    show "init_event model tk device (NewCore, outcome_of (Core env))"
      by (rule init_event.core)
  next
    fix u :: unit
    show "emits (init_event model tk device) (built_by env sch)
            (io_bind (load_model env model ''text_encoder'' device) (\<lambda>(_, te).
             io_bind (load_model env model ''unet'' device) (\<lambda>(unet_model, un).
             io_bind (io_lift (list_get (inputs unet_model) 0)) (\<lambda>input0.
             io_bind (load_model env model ''vae_decoder'' device) (\<lambda>(_, va).
             io_return \<lparr>tokenizer = t, scheduler = sch, text_encoder = te, unet = un,
                         latent_shape = tl input0, vae = va\<rparr>)))))"
    proof (rule emits_bind [OF emits_load_model], clarify)
      fix m1 te
      assume te: "compile_model env m1 device = Inr te"
      show "emits (init_event model tk device) (built_by env sch)
              (io_bind (load_model env model ''unet'' device) (\<lambda>(unet_model, un).
               io_bind (io_lift (list_get (inputs unet_model) 0)) (\<lambda>input0.
               io_bind (load_model env model ''vae_decoder'' device) (\<lambda>(_, va).
               io_return \<lparr>tokenizer = t, scheduler = sch, text_encoder = te, unet = un,
                           latent_shape = tl input0, vae = va\<rparr>))))"
      proof (rule emits_bind [OF emits_load_model], clarify)
        fix m2 un
        assume un: "compile_model env m2 device = Inr un"
        show "emits (init_event model tk device) (built_by env sch)
                (io_bind (io_lift (list_get (inputs m2) 0)) (\<lambda>input0.
                 io_bind (load_model env model ''vae_decoder'' device) (\<lambda>(_, va).
                 io_return \<lparr>tokenizer = t, scheduler = sch, text_encoder = te, unet = un,
                             latent_shape = tl input0, vae = va\<rparr>)))"
        proof (rule emits_bind [OF emits_lift [OF TrueI]], rule emits_bind [OF emits_load_model],
            clarify)
          fix input0 m3 va
          assume va: "compile_model env m3 device = Inr va"
          show "emits (init_event model tk device) (built_by env sch)
                  (io_return \<lparr>tokenizer = t, scheduler = sch, text_encoder = te, unet = un,
                              latent_shape = tl input0, vae = va\<rparr>)"
            using t te un va by (intro emits_return) (auto simp: built_by_def)
        qed
      qed
    qed
  qed simp
qed

lemma main_generate:
  "main env a =
     io_bind (generate env (args_seed a) (args_beta_start a) (args_beta_end a)
                (args_beta_schedule a) (args_model a) (args_tokenizer a) (args_prompt a)
                (args_num_inference_steps a) (args_guidance_scale a) (args_eta a) [] []
                [(''id'', PyInt 0)]) (\<lambda>img.
     io_bind (imwrite env (args_output a) img) (\<lambda>_. io_return ()))"
  by (simp add: main_def generate_def io_bind_assoc)

lemma run_generate:
  "run_stable_diffusion env prompt iterations seed filename server token next_prompt =
     io_bind (generate env (Some seed) 0.00085 0.012 ''scaled_linear''
                ''bes-dev/stable-diffusion-v1-4-openvino'' ''openai/clip-vit-large-patch14''
                prompt iterations 7.5 0.0 server token next_prompt) (\<lambda>img.
     io_bind (imwrite env filename img) (\<lambda>_. io_return ()))"
  by (simp add: run_stable_diffusion_def generate_def io_bind_assoc)

lemma emits_generate:
  "emits (run_event env seed model tk prompt n gs eta server token np) (\<lambda>_. True)
     (generate env seed bs be sc model tk prompt n gs eta server token np)"
  unfolding generate_def
proof (rule emits_bind [where Q = "\<lambda>_. True"])
  show "emits (run_event env seed model tk prompt n gs eta server token np) (\<lambda>_. True)
          (case seed of None \<Rightarrow> io_return () | Some s \<Rightarrow> random_seed env s)"
    by (cases seed) (auto intro!: emits_return emits_seed run_event.seeding)
next
  fix u :: unit
  let ?P = "run_event env seed model tk prompt n gs eta server token np"
  show "emits ?P (\<lambda>_. True)
          (io_bind (new_LMSDiscreteScheduler env bs be sc ''np'') (\<lambda>sch.
           io_bind (StableDiffusion_init env sch model tk ''CPU'') (\<lambda>sd.
           StableDiffusion_call env sd prompt n gs eta server token np)))"
  proof (rule emits_bind [OF emits_new_scheduler])
    show "?P (NewLMSDiscreteScheduler bs be sc ''np'', out)" for out
      by (rule run_event.new_scheduler)
  next
    fix sch :: "'a scheduler"
    assume sch: "sch = (LMSDiscreteScheduler env)\<lparr>isinstance_LMSDiscreteScheduler := True\<rparr>"
    show "emits ?P (\<lambda>_. True)
            (io_bind (StableDiffusion_init env sch model tk ''CPU'') (\<lambda>sd.
             StableDiffusion_call env sd prompt n gs eta server token np))"
    proof (rule emits_bind [OF emits_mono [OF emits_init]])
      show "init_event model tk ''CPU'' ev \<Longrightarrow> ?P ev" for ev
        by (rule run_event.loading)
    next
      fix sd :: "'a StableDiffusion"
      assume "built_by env sch sd"
      then have sd: "built_by env
          ((LMSDiscreteScheduler env)\<lparr>isinstance_LMSDiscreteScheduler := True\<rparr>) sd"
        by (simp add: sch)
      show "emits ?P (\<lambda>_. True) (StableDiffusion_call env sd prompt n gs eta server token np)"
      proof (rule emits_mono [OF emits_call])
        show "call_event sd prompt n gs eta server token np ev \<Longrightarrow> ?P ev" for ev
          using sd by (rule run_event.calling)
      qed
    qed
  qed
qed

lemma stops_generate:
  "stops_at_failure (generate env seed bs be sc model tk prompt n gs eta server token np)"
  unfolding generate_def
  by (intro stops_intros stops_init stops_call) (simp add: stops_intros split: option.splits)

lemma call_event_not_write:
  "call_event sd prompt n gs eta server token np ev \<Longrightarrow> \<not> is_write (fst ev)"
  by (erule call_event.cases) simp_all

lemma run_event_not_write:
  "run_event env seed model tk prompt n gs eta server token np ev \<Longrightarrow> \<not> is_write (fst ev)"
  by (erule run_event.cases) (auto elim!: init_event.cases dest: call_event_not_write)

lemma stops_events_of:
  "stops_at_failure m \<Longrightarrow>
   trace (snd (m w)) = trace w @ events_of m w \<and> fail_stop (events_of m w) (fst (m w))"
  by (auto simp: stops_at_failure_def events_of_def dest!: spec [of _ w])


lemma events_of_bind_Inl:
  assumes "fst (m w) = Inl e"
  shows "events_of (io_bind m f) w = events_of m w" and "fst (io_bind m f w) = Inl e"
  using assms by (simp_all add: io_bind_Inl events_of_def)

lemma events_of_bind_Inr:
  assumes "trace (snd (m w)) = trace w @ e1" and "fst (m w) = Inr x"
    and "trace (snd (f x (snd (m w)))) = trace (snd (m w)) @ e2"
  shows "events_of (io_bind m f) w = e1 @ e2"
    and "fst (io_bind m f w) = fst (f x (snd (m w)))"
  using assms by (simp_all add: io_bind_Inr events_of_def)

lemma write_step:
  "events_of (io_bind (imwrite env f img) (\<lambda>_. io_return ())) w
     = [(ImWrite f img, outcome_of (cv2_imwrite env f img))]"
  "trace (snd (io_bind (imwrite env f img) (\<lambda>_. io_return ()) w))
     = trace w @ [(ImWrite f img, outcome_of (cv2_imwrite env f img))]"
  "fst (io_bind (imwrite env f img) (\<lambda>_. io_return ()) w)
     = (case cv2_imwrite env f img of Inl e \<Rightarrow> Inl e | Inr _ \<Rightarrow> Inr ())"
  by (simp_all add: events_of_def io_bind_def imwrite_def external_def io_return_def
        split: sum.splits)

lemma fail_stop_raised:
  assumes "fail_stop evs r" and "(c, Raised e) \<in> set evs"
  shows "r = Inl e \<and> last evs = (c, Raised e)"
proof -
  from assms(2) have "\<not> list_all (\<lambda>ev. snd ev = Returned) evs"
    by (force simp: list_all_iff)
  with assms(1) obtain pre c' e' where
    evs: "evs = pre @ [(c', Raised e')]" and pre: "list_all (\<lambda>ev. snd ev = Returned) pre"
    and r: "r = Inl e'"
    unfolding fail_stop_def by blast
  from assms(2) pre have "(c, Raised e) = (c', Raised e')"
    unfolding evs by (auto simp: list_all_iff)
  then show ?thesis using evs r by simp
qed

lemma write_comes_last:
  fixes gen :: "('s, 8 word ndarray) io" and env :: "'s env"
  assumes st: "stops_at_failure gen"
    and em: "emits (\<lambda>ev. \<not> is_write (fst ev)) Q gen"
    and m: "m = io_bind gen (\<lambda>img. io_bind (imwrite env f img) (\<lambda>_. io_return ()))"
  shows "(fst (m w) = Inl e \<longrightarrow> (\<forall>f' img. (ImWrite f' img, Returned) \<notin> set (events_of m w)))
       \<and> ((c, Raised e) \<in> set (events_of m w) \<longrightarrow>
            fst (m w) = Inl e \<and> last (events_of m w) = (c, Raised e)
            \<and> (is_write c \<or> (\<forall>f' img out. (ImWrite f' img, out) \<notin> set (events_of m w))))"
proof -
  from stops_events_of [OF st, of w]
  have tr: "trace (snd (gen w)) = trace w @ events_of gen w"
    and fs: "fail_stop (events_of gen w) (fst (gen w))" by simp_all
  from emits_events_of [OF em, of w]
  have nw: "\<And>f' img out. (ImWrite f' img, out) \<notin> set (events_of gen w)"
    by (auto simp: list_all_iff)
  show ?thesis
  proof (cases "fst (gen w)")
    case (Inl e')
    have ev: "events_of m w = events_of gen w" and res: "fst (m w) = Inl e'"
      unfolding m using Inl by (rule events_of_bind_Inl)+
    show ?thesis
      using fail_stop_raised [OF fs, of c e] nw unfolding ev res Inl by auto
  next
    case (Inr img)
    let ?k = "io_bind (imwrite env f img) (\<lambda>_. io_return ())"
    let ?last = "(ImWrite f img, outcome_of (cv2_imwrite env f img))"
    have ret: "list_all (\<lambda>ev. snd ev = Returned) (events_of gen w)"
      using fs Inr by (simp add: fail_stop_Inr)
    have tr2: "trace (snd (?k (snd (gen w)))) = trace (snd (gen w)) @ [?last]"
      by (simp add: write_step)
    have ev: "events_of m w = events_of gen w @ [?last]"
      unfolding m using tr Inr tr2 by (rule events_of_bind_Inr)
    have "fst (m w) = fst (?k (snd (gen w)))"
      unfolding m using tr Inr tr2 by (rule events_of_bind_Inr)
    then have res: "fst (m w) = (case cv2_imwrite env f img of Inl e \<Rightarrow> Inl e | Inr _ \<Rightarrow> Inr ())"
      by (simp add: write_step)
    have no_raise: "(c, Raised e) \<notin> set (events_of gen w)"
      using ret by (force simp: list_all_iff)
    show ?thesis
      using nw no_raise unfolding ev res
      by (auto simp: outcome_of_def split: sum.splits)
  qed
qed

section \<open>The stages of the pipeline\<close>

lemma embed_Inr:
  assumes "embed sd text w = (Inr e, w')"
  shows "\<exists>toks. input_ids (tokenizer sd) text ''max_length'' (model_max_length (tokenizer sd)) True
                  = Inr toks
           \<and> embedding_of sd text = Inr e
           \<and> (\<exists>outs. text_encoder sd [(''tokens'', IntTensor (np_array_row toks))] = Inr (e # outs))
           \<and> trace w' = trace w @
                [(Tokenize text ''max_length'' (model_max_length (tokenizer sd)) True, Returned),
                 (InferNewRequest TextEncoder [(''tokens'', IntTensor (np_array_row toks))], Returned)]
           \<and> np_random w' = np_random w \<and> scheduler_state w' = scheduler_state w"
  using assms
  by (auto simp: embed_def embedding_of_def io_bind_def io_lift_def call_tokenizer_def
        infer_new_request_def external_def outcome_of_def err_bind_def result_def
      split: sum.splits list.splits)

lemma embedding_batch:
  assumes "batch_preserving (text_encoder sd)" and "embedding_of sd text = Inr e"
  shows "\<exists>s. shape e = 1 # s"
proof -
  from assms(2) obtain toks outs where
    "text_encoder sd [(''tokens'', IntTensor (np_array_row toks))] = Inr (e # outs)"
    by (auto simp: embedding_of_def err_bind_def result_def split: sum.splits list.splits)
  with assms(1) have "take 1 (shape e) = take 1 (shape (np_array_row toks))"
    unfolding batch_preserving_def by fastforce
  then have "take 1 (shape e) = [1]" by (simp add: np_array_row_def)
  then show ?thesis by (cases "shape e") auto
qed

lemma text_conditioning_Inr:
  assumes "text_conditioning sd prompt gs w = (Inr emb, w')"
  shows "(gs \<le> 1 \<longrightarrow>
            embedding_of sd prompt = Inr emb
            \<and> (\<exists>toks. map fst (events_of (text_conditioning sd prompt gs) w) =
                  [Tokenize prompt ''max_length'' (model_max_length (tokenizer sd)) True,
                   InferNewRequest TextEncoder [(''tokens'', IntTensor (np_array_row toks))]]))
       \<and> (1 < gs \<longrightarrow>
            (\<exists>u c. embedding_of sd [] = Inr u \<and> embedding_of sd prompt = Inr c
                \<and> np_concatenate u c = Inr emb)
            \<and> (\<exists>toks toks0. map fst (events_of (text_conditioning sd prompt gs) w) =
                  [Tokenize prompt ''max_length'' (model_max_length (tokenizer sd)) True,
                   InferNewRequest TextEncoder [(''tokens'', IntTensor (np_array_row toks))],
                   Tokenize [] ''max_length'' (model_max_length (tokenizer sd)) True,
                   InferNewRequest TextEncoder [(''tokens'', IntTensor (np_array_row toks0))]]))"
proof (cases "1 < gs")
  case False
  from assms False have "embed sd prompt w = (Inr emb, w')"
    by (auto simp: text_conditioning_def io_bind_def io_return_def split: sum.splits prod.splits)
  from embed_Inr [OF this] show ?thesis
    using False assms by (auto simp: events_of_def)
next
  case True
  from assms True obtain c w1 u where
    c: "embed sd prompt w = (Inr c, w1)" and u: "embed sd [] w1 = (Inr u, w')"
    and cat: "np_concatenate u c = Inr emb"
    by (auto simp: text_conditioning_def io_bind_def io_lift_def split: sum.splits prod.splits)
  from embed_Inr [OF c] embed_Inr [OF u] cat show ?thesis
    using True assms by (auto simp: events_of_def)
qed

lemma perform_guidance_Inr:
  assumes "perform_guidance gs noise_pred = Inr p"
  shows "(1 < gs \<longrightarrow>
           (\<exists>uncond cond. nd_index noise_pred 0 = Inr uncond \<and> nd_index noise_pred 1 = Inr cond
              \<and> p = nd_map2 (+) uncond (nd_map (\<lambda>v. gs * v) (nd_map2 (-) cond uncond))))
       \<and> (gs \<le> 1 \<longrightarrow> p = noise_pred)"
  using assms
  by (auto simp: perform_guidance_def err_bind_def split: sum.splits if_splits)

lemma guided_elementwise:
  assumes "k < length (data uncond)" and "k < length (data cond)"
  shows "data (nd_map2 (+) uncond (nd_map (\<lambda>v. gs * v) (nd_map2 (-) cond uncond))) ! k
           = data uncond ! k + gs * (data cond ! k - data uncond ! k)"
  using assms by (simp add: nd_map2_def nd_map_def)

lemma advance_events:
  "events_of (advance sch kw p i t l) w =
     [(Step p (if isinstance_LMSDiscreteScheduler sch then StepIndex i else Timestep t) l kw,
       outcome_of (step sch p (if isinstance_LMSDiscreteScheduler sch then StepIndex i else Timestep t)
                     l kw (scheduler_state w)))]"
  by (simp add: advance_def events_of_def io_bind_def scheduler_step_def external_def
        io_lift_def outcome_of_def split: sum.splits prod.splits)

lemma latent_model_input_pure:
  "snd (latent_model_input sch gs i l w) = w"
  by (simp add: latent_model_input_def io_bind_def io_lift_def io_return_def scheduler_sigmas_def
        np_stack_same split: sum.splits)

lemma iteration_step_event:
  assumes "(Step p a l kw, out) \<in> set (events_of (iteration env sd n gs server token np emb skw i t latents) w)"
  shows "\<exists>x outs noise_pred.
           fst (latent_model_input (scheduler sd) gs i latents w) = Inr x
         \<and> unet sd [(''latent_model_input'', FloatTensor x), (''t'', FloatScalar t),
                     (''encoder_hidden_states'', FloatTensor emb)] = Inr (noise_pred # outs)
         \<and> perform_guidance gs noise_pred = Inr p \<and> l = latents \<and> kw = skw"
proof -
  obtain r w1 where lmi: "latent_model_input (scheduler sd) gs i latents w = (r, w1)"
    by (cases "latent_model_input (scheduler sd) gs i latents w")
  have w1: "w1 = w" using latent_model_input_pure [of "scheduler sd" gs i latents w] lmi by simp
  show ?thesis
    using assms unfolding iteration_def
    apply (simp add: events_of_def io_bind_def lmi w1 split: sum.splits prod.splits)
    apply (auto simp: infer_new_request_def external_def io_lift_def put_def result_def
        advance_def scheduler_step_def io_bind_def outcome_of_def
        split: sum.splits prod.splits list.splits)
    done
qed












lemma concat_rows:
  assumes "np_concatenate u c = Inr emb" and "shape u = 1 # s" and "shape c = 1 # s'"
  shows "s' = s \<and> emb = NdArray (2 # s) (data u @ data c)"
  using assms by (auto simp: np_concatenate_def split: if_splits)

lemma stacked_rows:
  assumes "well_shaped u" and "well_shaped c" and "shape u = 1 # s" and "shape c = 1 # s"
  shows "nd_index (NdArray (2 # s) (data u @ data c)) 0 = nd_index u 0"
    and "nd_index (NdArray (2 # s) (data u @ data c)) 1 = nd_index c 0"
  using assms by (simp_all add: nd_index_def well_shaped_def)

lemma demo_batch_preserving: "batch_preserving (text_encoder demo_sd)"
  by (auto simp: batch_preserving_def demo_sd_def demo_text_encoder_def split: list.splits)



section \<open>The events of whole runs\<close>

lemma call_events:
  "list_all (call_event sd prompt n gs eta server token np)
     (events_of (StableDiffusion_call env sd prompt n gs eta server token np) w)"
  by (rule emits_events_of [OF emits_call])

lemma emits_written:
  assumes "emits P Q gen"
  shows "emits (\<lambda>ev. P ev \<or> is_write (fst ev)) (\<lambda>_. True)
           (io_bind gen (\<lambda>img. io_bind (imwrite env f img) (\<lambda>_. io_return ())))"
proof (rule emits_bind [OF emits_mono [OF assms]])
  show "P ev \<Longrightarrow> P ev \<or> is_write (fst ev)" for ev by simp
next
  fix img
  show "emits (\<lambda>ev. P ev \<or> is_write (fst ev)) (\<lambda>_. True)
          (io_bind (imwrite env f img) (\<lambda>_. io_return ()))"
    by (intro emits_bind [OF emits_imwrite] emits_return) simp_all
qed

lemma main_events:
  "list_all (\<lambda>ev. run_event env (args_seed a) (args_model a) (args_tokenizer a) (args_prompt a)
                     (args_num_inference_steps a) (args_guidance_scale a) (args_eta a) [] []
                     [(''id'', PyInt 0)] ev
                  \<or> is_write (fst ev))
     (events_of (main env a) w)"
  unfolding main_generate by (rule emits_events_of [OF emits_written [OF emits_generate]])

lemma cli_report_event:
  assumes "run_event env seed model tk prompt n gs eta [] [] [(''id'', PyInt 0)]
             (RequestsPut url b pct, out)"
  shows "url = ''/prompt/0?token='' \<and> b \<and> (\<exists>i. generated_percent i n = Inr pct)"
  using assms
proof cases
  case (loading)
  then show ?thesis by cases
next
  case (calling sd)
  from calling(2) show ?thesis
  proof cases
    case (report prompt_id i)
    from report have "prompt_id = PyInt 0" by (simp add: dict_get_def)
    with report show ?thesis by (auto simp: format_py_0 simp del: format_py.simps)
  qed
qed

lemma iteration_put_attempt:
  assumes lmi: "fst (latent_model_input (scheduler sd) gs i latents w) = Inr x"
    and den: "unet sd [(''latent_model_input'', FloatTensor x), (''t'', FloatScalar t),
                       (''encoder_hidden_states'', FloatTensor emb)] = Inr (noise_pred # outs)"
    and pct: "generated_percent i n = Inr pct"
    and pid: "dict_get np ''id'' = Inr prompt_id"
  shows "take 2 (events_of (iteration env sd n gs server token np emb skw i t latents) w) =
           [(InferNewRequest UNet
               [(''latent_model_input'', FloatTensor x), (''t'', FloatScalar t),
                (''encoder_hidden_states'', FloatTensor emb)], Returned),
            (RequestsPut (server @ ''/prompt/'' @ format_py prompt_id @ ''?token='' @ token) True pct,
             outcome_of (requests_put env
               (trace w @ [(InferNewRequest UNet
                  [(''latent_model_input'', FloatTensor x), (''t'', FloatScalar t),
                   (''encoder_hidden_states'', FloatTensor emb)], Returned)])
               (server @ ''/prompt/'' @ format_py prompt_id @ ''?token='' @ token) True pct))]"
proof -
  have l: "latent_model_input (scheduler sd) gs i latents w = (Inr x, w)"
    using lmi latent_model_input_pure [of "scheduler sd" gs i latents w]
    by (simp add: prod_eq_iff)
  show ?thesis
    unfolding iteration_def
    by (simp add: events_of_def io_bind_def l den pct pid infer_new_request_def external_def
          io_lift_def put_def result_def advance_def scheduler_step_def outcome_of_def
          del: format_py.simps split: sum.splits prod.splits)
qed

lemma demo_pads_and_truncates: "pads_and_truncates (tokenizer demo_sd)"
  by (auto simp: pads_and_truncates_def demo_sd_def demo_tokenizer_def)

subsection \<open>The callable entry point\<close>









section \<open>Runs that return\<close>





















section \<open>Claim C1: the text embeddings\<close>

text \<open>
  Claim C1. Take a text encoder whose outputs have as many rows as its batch of token
  rows, and a run of lines 57-80 that returns the embeddings \<open>emb\<close>.
  With \<open>guidance_scale \<le> 1\<close> the text encoder is run once, \<open>emb\<close> is the embedding of the
  prompt and has one row. With \<open>guidance_scale > 1\<close> the text encoder is run twice, on the
  prompt and on the empty string, and \<open>emb\<close> has exactly two rows: the embedding of the
  empty string first, the embedding of the prompt second.
\<close>

theorem guidance_embedding_batch:
  assumes enc: "batch_preserving (text_encoder sd)"
    and run: "text_conditioning sd prompt gs w = (Inr emb, w')"
  shows "(gs \<le> 1 \<longrightarrow>
            embedding_of sd prompt = Inr emb \<and> (\<exists>s. shape emb = 1 # s)
            \<and> length (filter (is_infer TextEncoder)
                        (map fst (events_of (text_conditioning sd prompt gs) w))) = 1)
       \<and> (1 < gs \<longrightarrow>
            (\<exists>u c s. embedding_of sd [] = Inr u \<and> embedding_of sd prompt = Inr c
                 \<and> shape u = 1 # s \<and> shape c = 1 # s
                 \<and> emb = NdArray (2 # s) (data u @ data c)
                 \<and> (well_shaped u \<and> well_shaped c \<longrightarrow>
                      nd_index emb 0 = nd_index u 0 \<and> nd_index emb 1 = nd_index c 0))
            \<and> length (filter (is_infer TextEncoder)
                        (map fst (events_of (text_conditioning sd prompt gs) w))) = 2)"
proof (intro conjI impI)
  assume gs: "gs \<le> 1"
  from text_conditioning_Inr [OF run] gs
  show e: "embedding_of sd prompt = Inr emb" by simp
  from embedding_batch [OF enc e] show "\<exists>s. shape emb = 1 # s" .
  from text_conditioning_Inr [OF run] gs
  show "length (filter (is_infer TextEncoder)
                  (map fst (events_of (text_conditioning sd prompt gs) w))) = 1"
    by auto
next
  assume gs: "1 < gs"
  from text_conditioning_Inr [OF run] gs obtain u c where
    u: "embedding_of sd [] = Inr u" and c: "embedding_of sd prompt = Inr c"
    and cat: "np_concatenate u c = Inr emb"
    by auto
  from embedding_batch [OF enc u] obtain s where su: "shape u = 1 # s" ..
  from embedding_batch [OF enc c] obtain s' where sc: "shape c = 1 # s'" ..
  from concat_rows [OF cat su sc] have s': "s' = s"
    and emb: "emb = NdArray (2 # s) (data u @ data c)" by simp_all
  have rows: "nd_index emb 0 = nd_index u 0 \<and> nd_index emb 1 = nd_index c 0"
    if "well_shaped u \<and> well_shaped c"
    using that stacked_rows [of u c s] su sc unfolding s' emb by simp
  show "\<exists>u c s. embedding_of sd [] = Inr u \<and> embedding_of sd prompt = Inr c
           \<and> shape u = 1 # s \<and> shape c = 1 # s
           \<and> emb = NdArray (2 # s) (data u @ data c)
           \<and> (well_shaped u \<and> well_shaped c \<longrightarrow>
                nd_index emb 0 = nd_index u 0 \<and> nd_index emb 1 = nd_index c 0)"
    using u c su sc s' emb rows by blast
  from text_conditioning_Inr [OF run] gs
  show "length (filter (is_infer TextEncoder)
                  (map fst (events_of (text_conditioning sd prompt gs) w))) = 2"
    by auto
qed

theorem guidance_embedding_batch_witness:
  "batch_preserving (text_encoder demo_sd)
   \<and> fst (text_conditioning demo_sd ''ab'' 7.5 demo_world) = Inr (NdArray [2, 1] [0, 195])
   \<and> fst (text_conditioning demo_sd ''ab'' 1 demo_world) = Inr (NdArray [1, 1] [195])
   \<and> (\<exists>u c s. embedding_of demo_sd [] = Inr u \<and> embedding_of demo_sd ''ab'' = Inr c
         \<and> shape u = 1 # s \<and> shape c = 1 # s
         \<and> NdArray [2, 1] [0, 195] = NdArray (2 # s) (data u @ data c))
   \<and> length (filter (is_infer TextEncoder)
               (map fst (events_of (text_conditioning demo_sd ''ab'' 7.5) demo_world))) = 2
   \<and> length (filter (is_infer TextEncoder)
               (map fst (events_of (text_conditioning demo_sd ''ab'' 1) demo_world))) = 1"
proof -
  have g: "text_conditioning demo_sd ''ab'' 7.5 demo_world
             = (Inr (NdArray [2, 1] [0, 195]), snd (text_conditioning demo_sd ''ab'' 7.5 demo_world))"
    by (simp add: prod_eq_iff run_defs sum_list_replicate)
  have p: "text_conditioning demo_sd ''ab'' 1 demo_world
             = (Inr (NdArray [1, 1] [195]), snd (text_conditioning demo_sd ''ab'' 1 demo_world))"
    by (simp add: prod_eq_iff run_defs sum_list_replicate)
  show ?thesis
    using guidance_embedding_batch [OF demo_batch_preserving g]
      guidance_embedding_batch [OF demo_batch_preserving p] g p demo_batch_preserving
    by (simp add: prod_eq_iff) blast
qed

section \<open>Claim C2: the guided noise prediction\<close>

text \<open>
  Claim C2. In an iteration of the loop, whenever the scheduler's update is called,
  the denoiser returned a first output \<open>noise_pred\<close> on this iteration's input, the
  update is applied to the iteration's latents, and its model output \<open>p\<close> is: with
  \<open>guidance_scale > 1\<close>, \<open>uncond + guidance_scale * (cond - uncond)\<close>, element by element,
  where \<open>uncond = noise_pred[0]\<close> and \<open>cond = noise_pred[1]\<close>; with \<open>guidance_scale \<le> 1\<close>,
  \<open>noise_pred\<close> itself.
\<close>

theorem guidance_combination:
  assumes "(Step p a l kw, out)
             \<in> set (events_of (iteration env sd n gs server token np emb skw i t latents) w)"
  shows "\<exists>x outs noise_pred.
           fst (latent_model_input (scheduler sd) gs i latents w) = Inr x
         \<and> unet sd [(''latent_model_input'', FloatTensor x), (''t'', FloatScalar t),
                     (''encoder_hidden_states'', FloatTensor emb)] = Inr (noise_pred # outs)
         \<and> l = latents
         \<and> (1 < gs \<longrightarrow>
               (\<exists>uncond cond.
                   nd_index noise_pred 0 = Inr uncond \<and> nd_index noise_pred 1 = Inr cond
                 \<and> p = nd_map2 (+) uncond (nd_map (\<lambda>v. gs * v) (nd_map2 (-) cond uncond))
                 \<and> shape p = shape uncond
                 \<and> (\<forall>k. k < length (data uncond) \<and> k < length (data cond) \<longrightarrow>
                       data p ! k = data uncond ! k + gs * (data cond ! k - data uncond ! k))))
         \<and> (gs \<le> 1 \<longrightarrow> p = noise_pred)"
proof -
  from iteration_step_event [OF assms] obtain x outs noise_pred where
    x: "fst (latent_model_input (scheduler sd) gs i latents w) = Inr x"
    and u: "unet sd [(''latent_model_input'', FloatTensor x), (''t'', FloatScalar t),
                     (''encoder_hidden_states'', FloatTensor emb)] = Inr (noise_pred # outs)"
    and g: "perform_guidance gs noise_pred = Inr p" and l: "l = latents"
    by blast
  note G = perform_guidance_Inr [OF g]
  have guided: "\<exists>uncond cond.
                   nd_index noise_pred 0 = Inr uncond \<and> nd_index noise_pred 1 = Inr cond
                 \<and> p = nd_map2 (+) uncond (nd_map (\<lambda>v. gs * v) (nd_map2 (-) cond uncond))
                 \<and> shape p = shape uncond
                 \<and> (\<forall>k. k < length (data uncond) \<and> k < length (data cond) \<longrightarrow>
                       data p ! k = data uncond ! k + gs * (data cond ! k - data uncond ! k))"
    if gs: "1 < gs"
  proof -
    from G gs obtain uncond cond where
      a: "nd_index noise_pred 0 = Inr uncond" and b: "nd_index noise_pred 1 = Inr cond"
      and p: "p = nd_map2 (+) uncond (nd_map (\<lambda>v. gs * v) (nd_map2 (-) cond uncond))"
      by blast
    have sh: "shape p = shape uncond" unfolding p by (simp add: nd_map2_def)
    have el: "data p ! k = data uncond ! k + gs * (data cond ! k - data uncond ! k)"
      if "k < length (data uncond) \<and> k < length (data cond)" for k
      unfolding p using that by (simp add: guided_elementwise)
    show ?thesis using a b p sh el by blast
  qed
  have plain: "p = noise_pred" if "gs \<le> 1" using G that by simp
  show ?thesis using x u l guided plain by blast
qed

theorem guidance_combination_witness:
  "(Step (NdArray [1, 1, 2] [87 / 5, 20]) (StepIndex 0) (NdArray [1, 1, 2] [3, 5]) [], Returned)
     \<in> set (events_of (iteration demo_env demo_sd 2 7.5 ''http://s'' ''tok'' [(''id'', PyInt 12)]
                         (NdArray [2, 1] [0, 195]) [] 0 1 (NdArray [1, 1, 2] [3, 5])) demo_world2)
   \<and> (\<exists>noise_pred uncond cond :: real ndarray.
         nd_index noise_pred 0 = Inr uncond \<and> nd_index noise_pred 1 = Inr cond
       \<and> NdArray [1, 1, 2] [87 / 5, 20]
           = nd_map2 (+) uncond (nd_map (\<lambda>v. 7.5 * v) (nd_map2 (-) cond uncond)))"
proof -
  have ev: "(Step (NdArray [1, 1, 2] [87 / 5, 20]) (StepIndex 0) (NdArray [1, 1, 2] [3, 5]) [], Returned)
     \<in> set (events_of (iteration demo_env demo_sd 2 7.5 ''http://s'' ''tok'' [(''id'', PyInt 12)]
                         (NdArray [2, 1] [0, 195]) [] 0 1 (NdArray [1, 1, 2] [3, 5])) demo_world2)"
    by (simp add: run_defs demo_world2_def upt_rec format_py_12 del: format_py.simps)
  have gs: "(1::real) < 7.5" by simp
  from guidance_combination [OF ev] gs
  have "\<exists>noise_pred uncond cond :: real ndarray.
         nd_index noise_pred 0 = Inr uncond \<and> nd_index noise_pred 1 = Inr cond
       \<and> NdArray [1, 1, 2] [87 / 5, 20]
           = nd_map2 (+) uncond (nd_map (\<lambda>v. 7.5 * v) (nd_map2 (-) cond uncond))"
    by blast
  with ev show ?thesis by (rule conjI)
qed

section \<open>Claim C3: the token rows\<close>

text \<open>
  Claim C3. Take a tokenizer that, called with \<^verbatim>\<open>padding="max_length"\<close> and
  \<^verbatim>\<open>truncation=True\<close>, returns exactly \<^verbatim>\<open>max_length\<close> ids. Then in every run of the
  pipeline, every call of the tokenizer asks for padding to \<^verbatim>\<open>max_length\<close> =
  \<^verbatim>\<open>tokenizer.model_max_length\<close> with truncation, and every input of the text encoder is
  one row of exactly \<^verbatim>\<open>tokenizer.model_max_length\<close> token ids, whatever the prompt.
\<close>

theorem token_rows_have_max_length:
  assumes tk: "pads_and_truncates (tokenizer sd)"
  shows "(\<forall>text padding m truncation out.
            (Tokenize text padding m truncation, out)
              \<in> set (events_of (StableDiffusion_call env sd prompt n gs eta server token np) w) \<longrightarrow>
            padding = ''max_length'' \<and> m = model_max_length (tokenizer sd) \<and> truncation)
       \<and> (\<forall>feed_dict out.
            (InferNewRequest TextEncoder feed_dict, out)
              \<in> set (events_of (StableDiffusion_call env sd prompt n gs eta server token np) w) \<longrightarrow>
            (\<exists>toks. feed_dict =
                       [(''tokens'', IntTensor (NdArray [1, model_max_length (tokenizer sd)] toks))]
                   \<and> length toks = model_max_length (tokenizer sd)))"
proof (intro conjI allI impI)
  fix s padding m truncation out
  assume "(Tokenize s padding m truncation, out)
            \<in> set (events_of (StableDiffusion_call env sd prompt n gs eta server token np) w)"
  with call_events [of sd prompt n gs eta server token np env w]
  have ev: "call_event sd prompt n gs eta server token np (Tokenize s padding m truncation, out)"
    by (simp add: list_all_iff)
  from ev show "padding = ''max_length''" by cases simp_all
  from ev show "m = model_max_length (tokenizer sd)" by cases simp_all
  from ev show "truncation" by cases simp_all
next
  fix feed_dict out
  assume "(InferNewRequest TextEncoder feed_dict, out)
            \<in> set (events_of (StableDiffusion_call env sd prompt n gs eta server token np) w)"
  with call_events [of sd prompt n gs eta server token np env w]
  have ev: "call_event sd prompt n gs eta server token np (InferNewRequest TextEncoder feed_dict, out)"
    by (simp add: list_all_iff)
  from ev show "\<exists>toks. feed_dict =
                       [(''tokens'', IntTensor (NdArray [1, model_max_length (tokenizer sd)] toks))]
                   \<and> length toks = model_max_length (tokenizer sd)"
  proof cases
    case (encode s tokens)
    from tk encode(2) have "length tokens = model_max_length (tokenizer sd)"
      unfolding pads_and_truncates_def by blast
    with encode(1) show ?thesis by (simp add: np_array_row_def)
  qed
qed

theorem token_rows_have_max_length_witness:
  "pads_and_truncates (tokenizer demo_sd)
   \<and> model_max_length (tokenizer demo_sd) = 4
   \<and> (InferNewRequest TextEncoder [(''tokens'', IntTensor (NdArray [1, 4] [97, 98, 0, 0]))], Returned)
       \<in> set (events_of (StableDiffusion_call demo_env demo_sd ''ab'' 2 7.5 0 ''http://s'' ''tok''
                           [(''id'', PyInt 12)]) demo_world)
   \<and> (InferNewRequest TextEncoder [(''tokens'', IntTensor (NdArray [1, 4] [97, 98, 99, 100]))],
       Returned)
       \<in> set (events_of (StableDiffusion_call demo_env demo_sd ''abcdef'' 2 7.5 0 ''http://s'' ''tok''
                           [(''id'', PyInt 12)]) demo_world)
   \<and> (\<exists>toks. [(''tokens'', IntTensor (NdArray [1, 4] [97, 98, 0, 0]))]
                = [(''tokens'', IntTensor (NdArray [1, model_max_length (tokenizer demo_sd)] toks))]
             \<and> length toks = model_max_length (tokenizer demo_sd))"
proof -
  have m: "model_max_length (tokenizer demo_sd) = 4"
    by (simp add: demo_sd_def demo_tokenizer_def)
  have a: "(InferNewRequest TextEncoder [(''tokens'', IntTensor (NdArray [1, 4] [97, 98, 0, 0]))],
            Returned)
       \<in> set (events_of (StableDiffusion_call demo_env demo_sd ''ab'' 2 7.5 0 ''http://s'' ''tok''
                           [(''id'', PyInt 12)]) demo_world)"
    by (simp add: run_defs upt_rec format_py_12 replicate_numeral_unfold del: format_py.simps)
  have b: "(InferNewRequest TextEncoder [(''tokens'', IntTensor (NdArray [1, 4] [97, 98, 99, 100]))],
            Returned)
       \<in> set (events_of (StableDiffusion_call demo_env demo_sd ''abcdef'' 2 7.5 0 ''http://s'' ''tok''
                           [(''id'', PyInt 12)]) demo_world)"
    by (simp add: run_defs upt_rec format_py_12 replicate_numeral_unfold del: format_py.simps)
  from token_rows_have_max_length [OF demo_pads_and_truncates] a
  have c: "\<exists>toks. [(''tokens'', IntTensor (NdArray [1, 4] [97, 98, 0, 0]))]
                = [(''tokens'', IntTensor (NdArray [1, model_max_length (tokenizer demo_sd)] toks))]
             \<and> length toks = model_max_length (tokenizer demo_sd)"
    by blast
  from demo_pads_and_truncates m a b c show ?thesis by (intro conjI)
qed

section \<open>Claim C4: the decoded image\<close>



section \<open>Claim C6: what the scheduler is called with\<close>




section \<open>Claim C7: a failure ends the run before the image is written\<close>

text \<open>
  Claim C7. In a run of \<open>main\<close>: if the run ends with an error, no call of
  \<^verbatim>\<open>cv2.imwrite\<close> has returned; and if any call that leaves the script raises \<open>e\<close> (loading a
  model, a forward pass, the progress report of an iteration), then the run ends with
  \<open>e\<close>, that call is the last one the run makes, and unless it is \<^verbatim>\<open>cv2.imwrite\<close> itself,
  \<^verbatim>\<open>cv2.imwrite\<close> is never called.
\<close>

theorem failure_aborts_run:
  "(fst (main env a w) = Inl e \<longrightarrow>
      (\<forall>f img. (ImWrite f img, Returned) \<notin> set (events_of (main env a) w)))
   \<and> ((c, Raised e) \<in> set (events_of (main env a) w) \<longrightarrow>
        fst (main env a w) = Inl e \<and> last (events_of (main env a) w) = (c, Raised e)
        \<and> (is_write c \<or> (\<forall>f img out. (ImWrite f img, out) \<notin> set (events_of (main env a) w))))"
  by (rule write_comes_last [OF stops_generate emits_mono [OF emits_generate] main_generate])
     (rule run_event_not_write)

theorem failure_aborts_run_witness:
  "(RequestsPut ''/prompt/0?token='' True 0, Raised (External ''ConnectionError''))
     \<in> set (events_of (main offline_env default_args) demo_world)
   \<and> fst (main offline_env default_args demo_world) = Inl (External ''ConnectionError'')
   \<and> last (events_of (main offline_env default_args) demo_world)
       = (RequestsPut ''/prompt/0?token='' True 0, Raised (External ''ConnectionError''))
   \<and> (\<forall>f img out. (ImWrite f img, out) \<notin> set (events_of (main offline_env default_args) demo_world))"
proof -
  have raised: "(RequestsPut ''/prompt/0?token='' True 0, Raised (External ''ConnectionError''))
     \<in> set (events_of (main offline_env default_args) demo_world)"
    by (simp add: offline_env_def run_defs upt_rec format_py_0 del: format_py.simps)
  show ?thesis
    using raised
      failure_aborts_run [of offline_env default_args demo_world "External ''ConnectionError''"
        "RequestsPut ''/prompt/0?token='' True 0"]
    by simp
qed

section \<open>Claim C8: the end-to-end scenario\<close>



section \<open>Claim C9: progress reports in the command-line mode\<close>

text \<open>
  Claim C9. In a run of \<open>main\<close>, which leaves \<^verbatim>\<open>server\<close>, \<^verbatim>\<open>token\<close> and \<^verbatim>\<open>next_prompt\<close> at
  their defaults, every progress report is a PUT to the URL \<^verbatim>\<open>/prompt/0?token=\<close> with
  \<^verbatim>\<open>being_generated\<close> true and a percentage of the run; a report that raises ends the run
  with its error; and an iteration of the loop with these defaults, once the denoiser
  has returned an output and the percentage is defined, makes that PUT as its next
  call, whatever the outcome.
\<close>

theorem cli_reports_without_server:
  "(\<forall>url b pct out.
       (RequestsPut url b pct, out) \<in> set (events_of (main env a) w) \<longrightarrow>
       url = ''/prompt/0?token='' \<and> b
       \<and> (\<exists>i. generated_percent i (args_num_inference_steps a) = Inr pct))
   \<and> (\<forall>url b pct e.
       (RequestsPut url b pct, Raised e) \<in> set (events_of (main env a) w) \<longrightarrow>
       fst (main env a w) = Inl e)
   \<and> (fst (latent_model_input (scheduler sd) gs i latents w0) = Inr x
      \<and> unet sd [(''latent_model_input'', FloatTensor x), (''t'', FloatScalar t),
                  (''encoder_hidden_states'', FloatTensor emb)] = Inr (noise_pred # outs)
      \<and> generated_percent i n = Inr p \<longrightarrow>
      take 2 (events_of (iteration env sd n gs [] [] [(''id'', PyInt 0)] emb skw i t latents) w0) =
        [(InferNewRequest UNet
            [(''latent_model_input'', FloatTensor x), (''t'', FloatScalar t),
             (''encoder_hidden_states'', FloatTensor emb)], Returned),
         (RequestsPut ''/prompt/0?token='' True p,
          outcome_of (requests_put env
            (trace w0 @ [(InferNewRequest UNet
               [(''latent_model_input'', FloatTensor x), (''t'', FloatScalar t),
                (''encoder_hidden_states'', FloatTensor emb)], Returned)])
            ''/prompt/0?token='' True p))])"
proof (intro conjI allI impI)
  fix url b pct out
  assume "(RequestsPut url b pct, out) \<in> set (events_of (main env a) w)"
  with main_events [of env a w]
  have "run_event env (args_seed a) (args_model a) (args_tokenizer a) (args_prompt a)
          (args_num_inference_steps a) (args_guidance_scale a) (args_eta a) [] []
          [(''id'', PyInt 0)] (RequestsPut url b pct, out)"
    by (auto simp: list_all_iff)
  from cli_report_event [OF this]
  show "url = ''/prompt/0?token=''" and "b"
    and "\<exists>i. generated_percent i (args_num_inference_steps a) = Inr pct"
    by simp_all
next
  fix url b pct e
  assume "(RequestsPut url b pct, Raised e) \<in> set (events_of (main env a) w)"
  with stops_events_of [OF stops_main, of env a w]
  show "fst (main env a w) = Inl e"
    using fail_stop_raised by blast
next
  assume h: "fst (latent_model_input (scheduler sd) gs i latents w0) = Inr x
      \<and> unet sd [(''latent_model_input'', FloatTensor x), (''t'', FloatScalar t),
                  (''encoder_hidden_states'', FloatTensor emb)] = Inr (noise_pred # outs)
      \<and> generated_percent i n = Inr p"
  have pid: "dict_get [(''id'', PyInt 0)] ''id'' = Inr (PyInt 0)" by (simp add: dict_get_def)
  from h have a: "fst (latent_model_input (scheduler sd) gs i latents w0) = Inr x"
    and b: "unet sd [(''latent_model_input'', FloatTensor x), (''t'', FloatScalar t),
                  (''encoder_hidden_states'', FloatTensor emb)] = Inr (noise_pred # outs)"
    and c: "generated_percent i n = Inr p" by simp_all
  from iteration_put_attempt [OF a b c pid, of env "[]" "[]" skw]
  show "take 2 (events_of (iteration env sd n gs [] [] [(''id'', PyInt 0)] emb skw i t latents) w0) =
        [(InferNewRequest UNet
            [(''latent_model_input'', FloatTensor x), (''t'', FloatScalar t),
             (''encoder_hidden_states'', FloatTensor emb)], Returned),
         (RequestsPut ''/prompt/0?token='' True p,
          outcome_of (requests_put env
            (trace w0 @ [(InferNewRequest UNet
               [(''latent_model_input'', FloatTensor x), (''t'', FloatScalar t),
                (''encoder_hidden_states'', FloatTensor emb)], Returned)])
            ''/prompt/0?token='' True p))]"
    by (simp add: format_py_0 del: format_py.simps)
qed

theorem cli_reports_without_server_witness:
  "(RequestsPut ''/prompt/0?token='' True 0, Returned)
     \<in> set (events_of (main demo_env two_steps) demo_world)
   \<and> (RequestsPut ''/prompt/0?token='' True 50, Returned)
     \<in> set (events_of (main demo_env two_steps) demo_world)
   \<and> (RequestsPut ''/prompt/0?token='' True 0, Raised (External ''ConnectionError''))
     \<in> set (events_of (main offline_env two_steps) demo_world)
   \<and> fst (main offline_env two_steps demo_world) = Inl (External ''ConnectionError'')
   \<and> (\<exists>i. generated_percent i (args_num_inference_steps two_steps) = Inr 50)"
proof -
  have a: "(RequestsPut ''/prompt/0?token='' True 0, Returned)
     \<in> set (events_of (main demo_env two_steps) demo_world)"
    by (simp add: two_steps_def run_defs upt_rec format_py_0 replicate_numeral_unfold
          del: format_py.simps)
  have b: "(RequestsPut ''/prompt/0?token='' True 50, Returned)
     \<in> set (events_of (main demo_env two_steps) demo_world)"
    by (simp add: two_steps_def run_defs upt_rec format_py_0 replicate_numeral_unfold
          del: format_py.simps)
  have c: "(RequestsPut ''/prompt/0?token='' True 0, Raised (External ''ConnectionError''))
     \<in> set (events_of (main offline_env two_steps) demo_world)"
    by (simp add: two_steps_def offline_env_def run_defs upt_rec format_py_0
          replicate_numeral_unfold del: format_py.simps)
  note T = cli_reports_without_server [of demo_env two_steps demo_world, THEN conjunct1]
  note U = cli_reports_without_server [of offline_env two_steps demo_world,
             THEN conjunct2, THEN conjunct1]
  from T b have d: "\<exists>i. generated_percent i (args_num_inference_steps two_steps) = Inr 50"
    by blast
  from U c have e: "fst (main offline_env two_steps demo_world) = Inl (External ''ConnectionError'')"
    by blast
  from a b c e d show ?thesis by (intro conjI)
qed

section \<open>Claim C10: the callable entry point always runs with guidance\<close>



end
